theory Spec2Isabelle
  imports Main
begin

section \<open>Data model\<close>

text \<open>
  Modelled from the spec: the Mongoose schema \<^verbatim>\<open>models/user.model.js\<close> is imported by
  the controller but is not among the sources. The fields are the ones the controller
  reads and writes and the spec's data model lists; \<open>uid\<close> stands for \<^verbatim>\<open>_id\<close>. Times are
  milliseconds since the epoch, as \<^verbatim>\<open>Date.now()\<close> gives them. A field that the controller
  sets to \<^verbatim>\<open>undefined\<close> is \<open>None\<close>. A new record is unverified and has no reset fields;
  \<open>lastLogin\<close> is unset until a login writes it.
\<close>

record user =
  uid :: nat
  email :: string
  password :: string
  name :: string
  lastLogin :: "int option"
  isVerified :: bool
  resetPasswordToken :: "string option"
  resetPasswordExpiresAt :: "int option"
  verificationToken :: "string option"
  verificationTokenExpiresAt :: "int option"

text \<open>JavaScript values that reach a response body, and objects as ordered key/value lists.\<close>

datatype jsval = JUndefined | JBool bool | JNum int | JStr string

type_synonym jsobj = "(string \<times> jsval) list"

datatype cookie_op =
    NoCookie
  | SetCookie string bool    \<comment> \<open>\<^verbatim>\<open>res.cookie("token", token, {secure, ...})\<close>\<close>
  | ClearCookie bool         \<comment> \<open>\<^verbatim>\<open>res.clearCookie("token", {secure, ...})\<close>\<close>

record response =
  status :: nat
  success :: bool
  message :: string
  body_user :: "jsobj option"
  body_users :: "jsobj list option"
  body_count :: "nat option"
  cookie :: cookie_op

datatype mail =
    VerificationEmail string string       \<comment> \<open>recipient, verification code\<close>
  | WelcomeEmail string string            \<comment> \<open>recipient, name\<close>
  | PasswordResetEmail string string      \<comment> \<open>recipient, reset URL\<close>
  | PasswordResetSuccessEmail string      \<comment> \<open>recipient\<close>

datatype jwt_error = JsonWebTokenError string | TokenExpiredError

text \<open>
  Everything a handler gets from outside the controller during one invocation: the
  clock, the outcome of the library calls (bcrypt, jsonwebtoken, the MongoDB driver, the
  Mailtrap client), the random values and the process environment. A call that throws is
  \<open>Inl\<close> (or \<open>Some\<close>) of the error's message. Each handler reads the clock once, reads
  the collection once and writes it at most once, so one value per call is enough.
  The verification code is what \<^verbatim>\<open>generateVerificationToken()\<close> returns in this call and
  \<open>randomBytes_hex\<close> what \<^verbatim>\<open>crypto.randomBytes(20).toString("hex")\<close> returns; the file of
  the former, the Mailtrap configuration and the mail templates are not among the
  sources, and nothing is assumed of them.
\<close>

record env =
  now :: int
  db_read_error :: "string option"
  db_write_error :: "string option"
  bcrypt_hash :: "string \<Rightarrow> string + string"
  bcrypt_compare :: "string \<Rightarrow> string \<Rightarrow> string + bool"
  jwt_sign :: "nat \<Rightarrow> string + string"
  jwt_verify :: "string \<Rightarrow> jwt_error + nat"
  mail_error :: "string option"
  fresh_id :: nat
  generateVerificationToken :: string
  randomBytes_hex :: string
  CLIENT_URL :: string
  production :: bool

text \<open>What one handler invocation leaves behind.\<close>

record outcome =
  store :: "user list"
  res :: response
  outbox :: "mail list"
  console_error :: "string list"

section \<open>The collection\<close>

definition User_findOne :: "env \<Rightarrow> (user \<Rightarrow> bool) \<Rightarrow> user list \<Rightarrow> string + user option" where
  "User_findOne e P s = (case db_read_error e of Some err \<Rightarrow> Inl err | None \<Rightarrow> Inr (find P s))"

definition User_find :: "env \<Rightarrow> (user \<Rightarrow> bool) \<Rightarrow> user list \<Rightarrow> string + user list" where
  "User_find e P s = (case db_read_error e of Some err \<Rightarrow> Inl err | None \<Rightarrow> Inr (filter P s))"

definition User_findById :: "env \<Rightarrow> nat \<Rightarrow> user list \<Rightarrow> string + user option" where
  "User_findById e i s = User_findOne e (\<lambda>u. uid u = i) s"

text \<open>
  \<^verbatim>\<open>user.save()\<close> writes the document back under its \<^verbatim>\<open>_id\<close>.
\<close>

definition User_save :: "env \<Rightarrow> user \<Rightarrow> user list \<Rightarrow> string + user list" where
  "User_save e u s =
     (case db_write_error e of
        Some err \<Rightarrow> Inl err
      | None \<Rightarrow> Inr (map (\<lambda>v. if uid v = uid u then u else v) s))"

text \<open>
  Modelled from the spec: \<^verbatim>\<open>User.create\<close> applies the schema, which is not among the
  sources. The spec has the record keyed by identifier and unique on email, with the
  uniqueness enforced at write time, so a write that would duplicate either is refused
  by the store; the new record starts unverified.
\<close>

definition User_create ::
  "env \<Rightarrow> string \<Rightarrow> string \<Rightarrow> string \<Rightarrow> string \<Rightarrow> int \<Rightarrow> user list \<Rightarrow> string + user \<times> user list" where
  "User_create e em hashed nm tok expires s =
     (case db_write_error e of
        Some err \<Rightarrow> Inl err
      | None \<Rightarrow>
          if fresh_id e \<in> set (map uid s) \<or> em \<in> set (map email s)
          then Inl ''E11000 duplicate key error''
          else
            (let u = \<lparr>uid = fresh_id e, email = em, password = hashed, name = nm,
                      lastLogin = None, isVerified = False,
                      resetPasswordToken = None, resetPasswordExpiresAt = None,
                      verificationToken = Some tok, verificationTokenExpiresAt = Some expires\<rparr>
             in Inr (u, s @ [u])))"

definition User_deleteMany :: "env \<Rightarrow> (user \<Rightarrow> bool) \<Rightarrow> user list \<Rightarrow> string + user list" where
  "User_deleteMany e P s =
     (case db_write_error e of Some err \<Rightarrow> Inl err | None \<Rightarrow> Inr (filter (\<lambda>u. \<not> P u) s))"

text \<open>The two unique indexes, as a predicate on the collection.\<close>

definition wf_store :: "user list \<Rightarrow> bool" where
  "wf_store s \<longleftrightarrow> distinct (map uid s) \<and> distinct (map email s)"

section \<open>Response bodies\<close>

definition opt_field :: "string \<Rightarrow> ('a \<Rightarrow> jsval) \<Rightarrow> 'a option \<Rightarrow> jsobj" where
  "opt_field k f v = (case v of None \<Rightarrow> [] | Some x \<Rightarrow> [(k, f x)])"

text \<open>\<^verbatim>\<open>user._doc\<close>: the stored fields of a document.\<close>

definition doc :: "user \<Rightarrow> jsobj" where
  "doc u =
     [(''_id'', JNum (int (uid u))), (''email'', JStr (email u)),
      (''password'', JStr (password u)), (''name'', JStr (name u))]
     @ opt_field ''lastLogin'' JNum (lastLogin u)
     @ [(''isVerified'', JBool (isVerified u))]
     @ opt_field ''resetPasswordToken'' JStr (resetPasswordToken u)
     @ opt_field ''resetPasswordExpiresAt'' JNum (resetPasswordExpiresAt u)
     @ opt_field ''verificationToken'' JStr (verificationToken u)
     @ opt_field ''verificationTokenExpiresAt'' JNum (verificationTokenExpiresAt u)"

text \<open>\<^verbatim>\<open>{...obj, k: v}\<close>: the key keeps its place when it is there, and is appended otherwise.\<close>

fun spread_set :: "jsobj \<Rightarrow> string \<Rightarrow> jsval \<Rightarrow> jsobj" where
  "spread_set [] k v = [(k, v)]"
| "spread_set ((k', v') # kvs) k v =
     (if k' = k then (k, v) # kvs else (k', v') # spread_set kvs k v)"

text \<open>\<^verbatim>\<open>res.json\<close> serialises with \<^verbatim>\<open>JSON.stringify\<close>, which leaves out a key whose value is \<^verbatim>\<open>undefined\<close>.\<close>

definition json :: "jsobj \<Rightarrow> jsobj" where
  "json obj = filter (\<lambda>(k, v). v \<noteq> JUndefined) obj"

text \<open>
  A Mongoose document handed to \<^verbatim>\<open>res.json\<close> as it is serialises to its stored fields.
  Modelled from the spec: the schema is not among the sources; no serialisation
  hook of its own is taken (the controllers strip the field by hand wherever they mean
  to, and read \<^verbatim>\<open>user.password\<close> from a plain query).
\<close>

definition toJSON :: "user \<Rightarrow> jsobj" where
  "toJSON u = json (doc u)"

definition reply :: "cookie_op \<Rightarrow> nat \<Rightarrow> bool \<Rightarrow> string \<Rightarrow> response" where
  "reply c st ok msg =
     \<lparr>status = st, success = ok, message = msg, body_user = None, body_users = None,
      body_count = None, cookie = c\<rparr>"

definition out :: "user list \<Rightarrow> response \<Rightarrow> mail list \<Rightarrow> string list \<Rightarrow> outcome" where
  "out s r ms logs = \<lparr>store = s, res = r, outbox = ms, console_error = logs\<rparr>"

section \<open>Token cookie and mail\<close>

definition generateTokenAndSetCookie :: "env \<Rightarrow> nat \<Rightarrow> string + cookie_op" where
  "generateTokenAndSetCookie e userId =
     (case jwt_sign e userId of
        Inl err \<Rightarrow> Inl err
      | Inr token \<Rightarrow> Inr (SetCookie token (production e)))"

text \<open>
  Each sender logs the transport's error and throws its own. \<open>Inl\<close> carries the message
  thrown and the line logged. The source hands the error object itself to
  \<^verbatim>\<open>console.error\<close>, which prints its name and stack with the message; the line kept here
  holds the message only.
\<close>

definition sendVerificationEmail :: "env \<Rightarrow> string \<Rightarrow> string \<Rightarrow> (string \<times> string) + mail" where
  "sendVerificationEmail e to tok =
     (case mail_error e of
        Some err \<Rightarrow> Inl (''Failed to send verification email'', ''Error sending verification email: '' @ err)
      | None \<Rightarrow> Inr (VerificationEmail to tok))"

definition sendWelcomeEmail :: "env \<Rightarrow> string \<Rightarrow> string \<Rightarrow> (string \<times> string) + mail" where
  "sendWelcomeEmail e to nm =
     (case mail_error e of
        Some err \<Rightarrow> Inl (''Failed to send welcome email'', ''Error sending welcome email: '' @ err)
      | None \<Rightarrow> Inr (WelcomeEmail to nm))"

definition sendPasswordResetEmail :: "env \<Rightarrow> string \<Rightarrow> string \<Rightarrow> (string \<times> string) + mail" where
  "sendPasswordResetEmail e to resetURL =
     (case mail_error e of
        Some err \<Rightarrow> Inl (''Failed to send password reset email'', ''Error sending password reset email: '' @ err)
      | None \<Rightarrow> Inr (PasswordResetEmail to resetURL))"

definition sendPasswordResetSuccessEmail :: "env \<Rightarrow> string \<Rightarrow> (string \<times> string) + mail" where
  "sendPasswordResetSuccessEmail e to =
     (case mail_error e of
        Some err \<Rightarrow> Inl (''Failed to send password reset success email'',
                         ''Error sending password reset success email: '' @ err)
      | None \<Rightarrow> Inr (PasswordResetSuccessEmail to))"

section \<open>Session middleware\<close>

text \<open>
  A cookie or a request field is a string or absent; \<^verbatim>\<open>!x\<close> holds of an absent one and of
  the empty string.
\<close>

definition jwt_message :: "jwt_error \<Rightarrow> string" where
  "jwt_message err = (case err of JsonWebTokenError m \<Rightarrow> m | TokenExpiredError \<Rightarrow> ''jwt expired'')"

datatype mw_result =
    Rejected response "string list"    \<comment> \<open>the response sent and the lines logged\<close>
  | Next nat                           \<comment> \<open>\<^verbatim>\<open>req.userId\<close>, handed to the next handler\<close>

fun verifyToken :: "env \<Rightarrow> string option \<Rightarrow> mw_result" where
  "verifyToken e (Some token) =
     (if token = [] then
        Rejected (reply NoCookie 401 False ''Unauthorized. Please login to continue.'') []
      else
        (case jwt_verify e token of
           Inr userId \<Rightarrow> Next userId
         | Inl err \<Rightarrow>
             Rejected (reply NoCookie 401 False ''Invalid or expired token. Please login again.'')
                      [''Token verification error: '' @ jwt_message err]))"
| "verifyToken e None =
     Rejected (reply NoCookie 401 False ''Unauthorized. Please login to continue.'') []"

section \<open>Controllers\<close>

text \<open>
  Every controller takes the environment of the call and the collection, and returns
  the collection it leaves, the response, the mail sent and the error lines logged.
  Request fields are strings or absent. A \<^verbatim>\<open>catch\<close> answers on the same \<^verbatim>\<open>res\<close>, so a
  cookie set before the throw goes out with the 500. Of the console output only the
  \<^verbatim>\<open>console.error\<close> lines are kept, without the pictograph that starts them in the source.
\<close>

subsection \<open>The sweep of expired unverified accounts\<close>

definition expired_unverified :: "int \<Rightarrow> user \<Rightarrow> bool" where
  "expired_unverified t u \<longleftrightarrow>
     isVerified u = False \<and>
     (case verificationTokenExpiresAt u of None \<Rightarrow> False | Some x \<Rightarrow> x < t)"

definition sweep :: "env \<Rightarrow> user list \<Rightarrow> user list \<times> string list" where
  "sweep e s =
     (case User_find e (expired_unverified (now e)) s of
        Inl err \<Rightarrow> (s, [''Error deleting expired unverified users: '' @ err])
      | Inr expiredUsers \<Rightarrow>
          if length expiredUsers > 0 then
            (case User_deleteMany e (expired_unverified (now e)) s of
               Inl err \<Rightarrow> (s, [''Error deleting expired unverified users: '' @ err])
             | Inr s' \<Rightarrow> (s', []))
          else (s, []))"

subsection \<open>getAllUsers\<close>

definition getAllUsers :: "env \<Rightarrow> user list \<Rightarrow> outcome" where
  "getAllUsers e s =
     (case User_find e (\<lambda>u. True) s of
        Inl err \<Rightarrow>
          out s (reply NoCookie 500 False ''Server error while fetching users'') []
              [''Error fetching users: '' @ err]
      | Inr users \<Rightarrow>
          out s ((reply NoCookie 200 True ''Users fetched successfully'')
                   \<lparr>body_count := Some (length users), body_users := Some (map toJSON users)\<rparr>)
              [] [])"

subsection \<open>signup\<close>

definition signup_catch :: "user list \<Rightarrow> cookie_op \<Rightarrow> string list \<Rightarrow> string \<Rightarrow> outcome" where
  "signup_catch s c logs err =
     out s (reply c 500 False (''Server error during signup: '' @ err)) []
         (logs @ [''Signup error: '' @ err])"

fun signup :: "env \<Rightarrow> user list \<Rightarrow> string option \<Rightarrow> string option \<Rightarrow> string option \<Rightarrow> outcome" where
  "signup e s (Some req_email) (Some req_password) (Some req_name) =
     (if req_email = [] \<or> req_password = [] \<or> req_name = [] then
        out s (reply NoCookie 400 False ''All fields are required (email, password, name).'') [] []
      else if length req_password < 8 then
        out s (reply NoCookie 400 False ''Password must be at least 8 characters long.'') [] []
      else
        (case User_findOne e (\<lambda>u. email u = req_email) s of
           Inl err \<Rightarrow> signup_catch s NoCookie [] err
         | Inr (Some existingUser) \<Rightarrow>
             out s (reply NoCookie 409 False ''A user with this email already exists.'') [] []
         | Inr None \<Rightarrow>
             (case bcrypt_hash e req_password of
                Inl err \<Rightarrow> signup_catch s NoCookie [] err
              | Inr hashedPassword \<Rightarrow>
                  (case User_create e req_email hashedPassword req_name
                          (generateVerificationToken e) (now e + 24 * 60 * 60 * 1000) s of
                     Inl err \<Rightarrow> signup_catch s NoCookie [] err
                   | Inr (u, s') \<Rightarrow>
                       (case generateTokenAndSetCookie e (uid u) of
                          Inl err \<Rightarrow> signup_catch s' NoCookie [] err
                        | Inr c \<Rightarrow>
                            (case sendVerificationEmail e (email u) (generateVerificationToken e) of
                               Inl (err, logged) \<Rightarrow> signup_catch s' c [logged] err
                             | Inr m \<Rightarrow>
                                 out s'
                                   ((reply c 201 True
                                       ''User created successfully. Please check your email to verify your account.'')
                                      \<lparr>body_user := Some (json (spread_set (doc u) ''password'' JUndefined))\<rparr>)
                                   [m] []))))))"
| "signup e s _ _ _ =
     out s (reply NoCookie 400 False ''All fields are required (email, password, name).'') [] []"

subsection \<open>login\<close>

definition login_catch :: "user list \<Rightarrow> cookie_op \<Rightarrow> string \<Rightarrow> outcome" where
  "login_catch s c err =
     out s (reply c 500 False ''Server error during login.'') [] [''Login error: '' @ err]"

fun login :: "env \<Rightarrow> user list \<Rightarrow> string option \<Rightarrow> string option \<Rightarrow> outcome" where
  "login e s (Some req_email) (Some req_password) =
     (if req_email = [] \<or> req_password = [] then
        out s (reply NoCookie 400 False ''All fields are required (email and password).'') [] []
      else
        (case User_findOne e (\<lambda>u. email u = req_email) s of
           Inl err \<Rightarrow> login_catch s NoCookie err
         | Inr None \<Rightarrow> out s (reply NoCookie 401 False ''Invalid email or password.'') [] []
         | Inr (Some u) \<Rightarrow>
             if \<not> isVerified u then
               out s (reply NoCookie 403 False ''Please verify your email before logging in.'') [] []
             else
               (case bcrypt_compare e req_password (password u) of
                  Inl err \<Rightarrow> login_catch s NoCookie err
                | Inr isMatch \<Rightarrow>
                    if \<not> isMatch then
                      out s (reply NoCookie 401 False ''Invalid email or password.'') [] []
                    else
                      (case generateTokenAndSetCookie e (uid u) of
                         Inl err \<Rightarrow> login_catch s NoCookie err
                       | Inr c \<Rightarrow>
                           (let u' = u\<lparr>lastLogin := Some (now e)\<rparr> in
                            case User_save e u' s of
                              Inl err \<Rightarrow> login_catch s c err
                            | Inr s' \<Rightarrow>
                                out s'
                                  ((reply c 200 True ''Logged in successfully'')
                                     \<lparr>body_user := Some (json (spread_set (doc u') ''password'' JUndefined))\<rparr>)
                                  [] [])))))"
| "login e s _ _ =
     out s (reply NoCookie 400 False ''All fields are required (email and password).'') [] []"

subsection \<open>logout\<close>

definition logout :: "env \<Rightarrow> user list \<Rightarrow> outcome" where
  "logout e s = out s (reply (ClearCookie (production e)) 200 True ''Logged out successfully'') [] []"

subsection \<open>verifyEmail\<close>

definition verifyEmail_catch :: "user list \<Rightarrow> mail list \<Rightarrow> string list \<Rightarrow> string \<Rightarrow> outcome" where
  "verifyEmail_catch s ms logs err =
     out s (reply NoCookie 500 False ''Server error during email verification.'') ms
         (logs @ [''Email verification error: '' @ err])"

text \<open>
  The query \<^verbatim>\<open>{verificationToken: code, verificationTokenExpiresAt: {$gt: Date.now()}}\<close>.
  A comparison operator does not match a document without the field; an absent \<open>code\<close>
  is sent as null and matches a record without the token field.
\<close>

definition verification_matches :: "string option \<Rightarrow> int \<Rightarrow> user \<Rightarrow> bool" where
  "verification_matches code t u \<longleftrightarrow>
     verificationToken u = code \<and>
     (case verificationTokenExpiresAt u of None \<Rightarrow> False | Some x \<Rightarrow> x > t)"

definition verifyEmail :: "env \<Rightarrow> user list \<Rightarrow> string option \<Rightarrow> outcome" where
  "verifyEmail e s code =
     (case User_findOne e (verification_matches code (now e)) s of
        Inl err \<Rightarrow> verifyEmail_catch s [] [] err
      | Inr None \<Rightarrow>
          out s (reply NoCookie 400 False ''Invalid or expired verification code.'') [] []
      | Inr (Some u) \<Rightarrow>
          (let u' = u\<lparr>isVerified := True, verificationToken := None,
                       verificationTokenExpiresAt := None\<rparr> in
           case User_save e u' s of
             Inl err \<Rightarrow> verifyEmail_catch s [] [] err
           | Inr s' \<Rightarrow>
               (case sendWelcomeEmail e (email u') (name u') of
                  Inl (err, logged) \<Rightarrow> verifyEmail_catch s' [] [logged] err
                | Inr m \<Rightarrow>
                    (case generateTokenAndSetCookie e (uid u') of
                       Inl err \<Rightarrow> verifyEmail_catch s' [m] [] err
                     | Inr c \<Rightarrow>
                         out s'
                           ((reply c 200 True ''Email verified successfully.'')
                              \<lparr>body_user :=
                                 Some (json [(''_id'', JNum (int (uid u'))), (''name'', JStr (name u')),
                                             (''email'', JStr (email u')),
                                             (''isVerified'', JBool (isVerified u'))])\<rparr>)
                           [m] []))))"

subsection \<open>forgotPassword\<close>

definition forgotPassword_catch :: "user list \<Rightarrow> string list \<Rightarrow> string \<Rightarrow> outcome" where
  "forgotPassword_catch s logs err =
     out s (reply NoCookie 500 False ''Server error during forgot password.'') []
         (logs @ [''Forgot password error: '' @ err])"

text \<open>
  There is no check that the email is present: an absent one is sent to the store as
  null and matches no record, every record having an email.
\<close>

definition forgotPassword :: "env \<Rightarrow> user list \<Rightarrow> string option \<Rightarrow> outcome" where
  "forgotPassword e s req_email =
     (case User_findOne e (\<lambda>u. Some (email u) = req_email) s of
        Inl err \<Rightarrow> forgotPassword_catch s [] err
      | Inr None \<Rightarrow> out s (reply NoCookie 404 False ''No User Found With This Email'') [] []
      | Inr (Some u) \<Rightarrow>
          (let resetToken = randomBytes_hex e;
               resetTokenExpiresAt = now e + 60 * 60 * 1000;
               u' = u\<lparr>resetPasswordToken := Some resetToken,
                       resetPasswordExpiresAt := Some resetTokenExpiresAt\<rparr> in
           case User_save e u' s of
             Inl err \<Rightarrow> forgotPassword_catch s [] err
           | Inr s' \<Rightarrow>
               (case sendPasswordResetEmail e (email u')
                       (CLIENT_URL e @ ''/reset-password/'' @ resetToken) of
                  Inl (err, logged) \<Rightarrow> forgotPassword_catch s' [logged] err
                | Inr m \<Rightarrow>
                    out s' (reply NoCookie 200 True ''Reset password email sent successfully.'')
                        [m] [])))"

subsection \<open>resetPassword\<close>

definition resetPassword_catch :: "user list \<Rightarrow> string list \<Rightarrow> string \<Rightarrow> outcome" where
  "resetPassword_catch s logs err =
     out s (reply NoCookie 500 False ''Server error during password reset.'') []
         (logs @ [''Reset password error: '' @ err])"

definition reset_matches :: "string \<Rightarrow> int \<Rightarrow> user \<Rightarrow> bool" where
  "reset_matches token t u \<longleftrightarrow>
     resetPasswordToken u = Some token \<and>
     (case resetPasswordExpiresAt u of None \<Rightarrow> False | Some x \<Rightarrow> x > t)"

text \<open>The token is the route parameter, a string; the password comes from the body.\<close>

fun resetPassword :: "env \<Rightarrow> user list \<Rightarrow> string \<Rightarrow> string option \<Rightarrow> outcome" where
  "resetPassword e s token (Some req_password) =
     (if req_password = [] then
        out s (reply NoCookie 400 False ''Password is required'') [] []
      else if length req_password < 8 then
        out s (reply NoCookie 400 False ''Password must be at least 8 characters long'') [] []
      else
        (case User_findOne e (reset_matches token (now e)) s of
           Inl err \<Rightarrow> resetPassword_catch s [] err
         | Inr None \<Rightarrow> out s (reply NoCookie 400 False ''Invalid or expired reset token.'') [] []
         | Inr (Some u) \<Rightarrow>
             (case bcrypt_hash e req_password of
                Inl err \<Rightarrow> resetPassword_catch s [] err
              | Inr hashedPassword \<Rightarrow>
                  (let u' = u\<lparr>password := hashedPassword, resetPasswordToken := None,
                               resetPasswordExpiresAt := None\<rparr> in
                   case User_save e u' s of
                     Inl err \<Rightarrow> resetPassword_catch s [] err
                   | Inr s' \<Rightarrow>
                       (case sendPasswordResetSuccessEmail e (email u') of
                          Inl (err, logged) \<Rightarrow> resetPassword_catch s' [logged] err
                        | Inr m \<Rightarrow>
                            out s' (reply NoCookie 200 True ''Password reset successfully.'')
                                [m] [])))))"
| "resetPassword e s token None =
     out s (reply NoCookie 400 False ''Password is required'') [] []"

subsection \<open>checkAuth\<close>

definition checkAuth :: "env \<Rightarrow> user list \<Rightarrow> nat \<Rightarrow> outcome" where
  "checkAuth e s userId =
     (case User_findById e userId s of
        Inl err \<Rightarrow>
          out s (reply NoCookie 500 False ''Server error during check auth.'') []
              [''Check auth error: '' @ err]
      | Inr None \<Rightarrow>
          out s (reply NoCookie 401 False ''Unauthorized. Please login to continue.'') [] []
      | Inr (Some u) \<Rightarrow>
          out s ((reply NoCookie 200 True ''User is authenticated'')
                   \<lparr>body_user := Some (json (spread_set (doc u) ''password'' JUndefined))\<rparr>)
              [] [])"

section \<open>Routes and events\<close>

text \<open>
  The router: \<^verbatim>\<open>/check-auth\<close> runs \<open>verifyToken\<close> before \<open>checkAuth\<close>; \<^verbatim>\<open>GET /\<close> is registered
  only outside production (\<open>None\<close>: no such route); the timer runs the sweep. The rate
  limiters in front of signup, login and forgot-password answer before the controller is
  reached and are not part of these functions.
\<close>

datatype request =
    Signup "string option" "string option" "string option"
  | Login "string option" "string option"
  | Logout
  | VerifyEmail "string option"
  | ForgotPassword "string option"
  | ResetPassword string "string option"
  | CheckAuth "string option"
  | GetAllUsers

fun handle :: "env \<Rightarrow> user list \<Rightarrow> request \<Rightarrow> outcome option" where
  "handle e s (Signup em pw nm) = Some (signup e s em pw nm)"
| "handle e s (Login em pw) = Some (login e s em pw)"
| "handle e s Logout = Some (logout e s)"
| "handle e s (VerifyEmail code) = Some (verifyEmail e s code)"
| "handle e s (ForgotPassword em) = Some (forgotPassword e s em)"
| "handle e s (ResetPassword token pw) = Some (resetPassword e s token pw)"
| "handle e s (CheckAuth cookie_token) =
     Some (case verifyToken e cookie_token of
             Rejected r logs \<Rightarrow> out s r [] logs
           | Next userId \<Rightarrow> checkAuth e s userId)"
| "handle e s GetAllUsers = (if production e then None else Some (getAllUsers e s))"

datatype event = Request request | SweepTick

text \<open>The collection after an event.\<close>

fun step :: "env \<Rightarrow> event \<Rightarrow> user list \<Rightarrow> user list" where
  "step e (Request r) s = (case handle e s r of None \<Rightarrow> s | Some oc \<Rightarrow> store oc)"
| "step e SweepTick s = fst (sweep e s)"

text \<open>The collection after a sequence of events, each with the environment it ran in.\<close>

fun run :: "(env \<times> event) list \<Rightarrow> user list \<Rightarrow> user list" where
  "run [] s = s"
| "run ((e, ev) # evs) s = run evs (step e ev s)"

text \<open>The user objects a response body carries.\<close>

definition user_objects :: "response \<Rightarrow> jsobj list" where
  "user_objects r =
     (case body_user r of None \<Rightarrow> [] | Some obj \<Rightarrow> [obj]) @
     (case body_users r of None \<Rightarrow> [] | Some objs \<Rightarrow> objs)"

definition has_key :: "string \<Rightarrow> jsobj \<Rightarrow> bool" where
  "has_key k obj \<longleftrightarrow> k \<in> set (map fst obj)"

text \<open>The response of a rejecting middleware, as the caller sees it.\<close>

definition rejection :: "mw_result \<Rightarrow> response option" where
  "rejection r = (case r of Rejected resp logs \<Rightarrow> Some resp | Next userId \<Rightarrow> None)"

section \<open>A concrete environment and concrete records\<close>

text \<open>
  An environment in which nothing faults, with simple stand-ins for the libraries, and
  a few records, to run the controllers on.
\<close>

definition example_env :: env where
  "example_env =
     \<lparr>now = 1000, db_read_error = None, db_write_error = None,
      bcrypt_hash = (\<lambda>p. Inr (''$2b$12$'' @ p)),
      bcrypt_compare = (\<lambda>p h. Inr (h = ''$2b$12$'' @ p)),
      jwt_sign = (\<lambda>i. Inr ''signed.jwt.token''),
      jwt_verify = (\<lambda>t. if t = ''signed.jwt.token'' then Inr 1
                         else if t = ''expired.jwt.token'' then Inl TokenExpiredError
                         else Inl (JsonWebTokenError ''jwt malformed'')),
      mail_error = None, fresh_id = 1, generateVerificationToken = ''123456'',
      randomBytes_hex = ''9f86d081884c7d659a2f'', CLIENT_URL = ''http://localhost:5173'',
      production = False\<rparr>"

definition alice :: user where
  "alice =
     \<lparr>uid = 1, email = ''a@x.com'', password = ''$2b$12$Passw0rd!'', name = ''A'',
      lastLogin = None, isVerified = False,
      resetPasswordToken = None, resetPasswordExpiresAt = None,
      verificationToken = Some ''123456'', verificationTokenExpiresAt = Some 86401000\<rparr>"

definition bob :: user where
  "bob =
     \<lparr>uid = 2, email = ''b@x.com'', password = ''$2b$12$hunter2hunter2'', name = ''B'',
      lastLogin = Some 500, isVerified = True,
      resetPasswordToken = Some ''9f86d081884c7d659a2f'', resetPasswordExpiresAt = Some 3601000,
      verificationToken = None, verificationTokenExpiresAt = None\<rparr>"

definition carol :: user where
  "carol =
     \<lparr>uid = 3, email = ''c@x.com'', password = ''$2b$12$Passw0rd?'', name = ''C'',
      lastLogin = None, isVerified = False,
      resetPasswordToken = None, resetPasswordExpiresAt = None,
      verificationToken = Some ''123456'', verificationTokenExpiresAt = Some 86401000\<rparr>"

section \<open>Notions used in the statements\<close>

text \<open>The record \<open>User_create\<close> inserts for a signup.\<close>

definition new_user :: "env \<Rightarrow> string \<Rightarrow> string \<Rightarrow> string \<Rightarrow> user" where
  "new_user e em hashed nm =
     \<lparr>uid = fresh_id e, email = em, password = hashed, name = nm,
      lastLogin = None, isVerified = False,
      resetPasswordToken = None, resetPasswordExpiresAt = None,
      verificationToken = Some (generateVerificationToken e),
      verificationTokenExpiresAt = Some (now e + 24 * 60 * 60 * 1000)\<rparr>"

text \<open>The collection after \<open>User_save\<close> has written \<open>u'\<close> back under the identifier of \<open>u\<close>.\<close>

definition save_as :: "user \<Rightarrow> user \<Rightarrow> user list \<Rightarrow> user list" where
  "save_as u u' s = map (\<lambda>v. if uid v = uid u then u' else v) s"

text \<open>What \<open>verifyEmail\<close> and \<open>resetPassword\<close> assign to the record before saving it.\<close>

definition verified :: "user \<Rightarrow> user" where
  "verified u = u\<lparr>isVerified := True, verificationToken := None, verificationTokenExpiresAt := None\<rparr>"

definition with_password :: "string \<Rightarrow> user \<Rightarrow> user" where
  "with_password h u = u\<lparr>password := h, resetPasswordToken := None, resetPasswordExpiresAt := None\<rparr>"

text \<open>
  From \<open>s\<close> to \<open>s'\<close>, every record either is still there under its identifier, verified if
  it was, or was unverified and is gone.
\<close>

definition flag_monotone :: "user list \<Rightarrow> user list \<Rightarrow> bool" where
  "flag_monotone s s' \<longleftrightarrow>
     (\<forall>u\<in>set s.
        (\<exists>u'\<in>set s'. uid u' = uid u \<and> (isVerified u \<longrightarrow> isVerified u'))
        \<or> (\<not> isVerified u \<and> uid u \<notin> set (map uid s')))"

text \<open>\<open>s'\<close> is \<open>s\<close> after one save that keeps identifier and email and does not unset the flag.\<close>

definition saved :: "user list \<Rightarrow> user list \<Rightarrow> bool" where
  "saved s s' \<longleftrightarrow>
     (\<exists>w\<in>set s. \<exists>w'. uid w' = uid w \<and> email w' = email w \<and> (isVerified w \<longrightarrow> isVerified w')
        \<and> s' = save_as w w' s)"

section \<open>Basic facts about the collection\<close>

lemma find_None_set: "find P s = None \<longleftrightarrow> (\<forall>x\<in>set s. \<not> P x)"
  by (induction s) auto

lemma find_Some_set: "find P s = Some x \<Longrightarrow> x \<in> set s \<and> P x"
  by (induction s) (auto split: if_splits)

lemma find_by_email:
  "distinct (map email s) \<Longrightarrow> u \<in> set s \<Longrightarrow> find (\<lambda>v. email v = email u) s = Some u"
  by (induction s) (auto simp: image_iff)

lemma find_registered_email:
  "em \<in> set (map email s) \<Longrightarrow> \<exists>u. find (\<lambda>v. email v = em) s = Some u"
  by (cases "find (\<lambda>v. email v = em) s") (auto simp: find_None_set)

lemma findOne_registered:
  assumes "wf_store s" and "u \<in> set s" and "db_read_error e = None"
  shows "User_findOne e (\<lambda>v. email v = email u) s = Inr (Some u)"
  using assms by (simp add: User_findOne_def wf_store_def find_by_email)

lemma findOne_unregistered:
  assumes "em \<notin> set (map email s)" and "db_read_error e = None"
  shows "User_findOne e (\<lambda>v. email v = em) s = Inr None"
  using assms by (auto simp: User_findOne_def find_None_set)

lemma same_uid_same_record:
  "distinct (map uid s) \<Longrightarrow> v \<in> set s \<Longrightarrow> w \<in> set s \<Longrightarrow> uid v = uid w \<Longrightarrow> v = w"
  by (simp add: distinct_map inj_on_def)

lemma short_list_one_element:
  "length l \<le> 1 \<Longrightarrow> u \<in> set l \<Longrightarrow> v \<in> set l \<Longrightarrow> v = u"
  by (cases l) auto

lemma sole_holder:
  assumes "length (filter P s) \<le> 1" and "u \<in> set s" and "P u" and "v \<in> set s" and "P v"
  shows "v = u"
proof -
  have "u \<in> set (filter P s)" and "v \<in> set (filter P s)"
    using assms by simp_all
  then show ?thesis
    by (rule short_list_one_element [OF assms(1)])
qed

lemma save_as_changes:
  assumes "u \<in> set s" and "u' \<noteq> u"
  shows "save_as u u' s \<noteq> s"
proof
  assume "save_as u u' s = s"
  then have "map (\<lambda>v. if uid v = uid u then u' else v) s = map (\<lambda>v. v) s"
    by (simp add: save_as_def)
  then have "(if uid u = uid u then u' else u) = u"
    using assms(1) by (simp only: map_eq_conv)
  then show False
    using assms(2) by simp
qed

section \<open>Session-token verification\<close>

text \<open>
  C2, as stated: an absent, a malformed and an expired token are rejected with the same
  status and the same message. The middleware answers an absent token with its own
  message, so the statement fails on a request without a cookie against one with a
  malformed cookie.
\<close>

theorem verifyToken_absent_versus_malformed_counterexample:
  "map_option message (rejection (verifyToken example_env None))
     = Some ''Unauthorized. Please login to continue.''
   \<and> map_option message (rejection (verifyToken example_env (Some ''garbage'')))
     = Some ''Invalid or expired token. Please login again.''
   \<and> rejection (verifyToken example_env None)
     \<noteq> rejection (verifyToken example_env (Some ''garbage''))"
  by (simp add: example_env_def rejection_def reply_def)

text \<open>
  C2, amended: all three cases are rejected with status 401. A malformed and an expired
  token get one and the same response, with the message "Invalid or expired token.
  Please login again."; an absent (or empty) token gets the message "Unauthorized.
  Please login to continue.".
\<close>

theorem verifyToken_rejects:
  assumes "t1 \<noteq> []" and "t2 \<noteq> []"
    and "jwt_verify e t1 = Inl (JsonWebTokenError m)"
    and "jwt_verify e t2 = Inl TokenExpiredError"
  shows "rejection (verifyToken e None)
           = Some (reply NoCookie 401 False ''Unauthorized. Please login to continue.'')
       \<and> rejection (verifyToken e (Some []))
           = Some (reply NoCookie 401 False ''Unauthorized. Please login to continue.'')
       \<and> rejection (verifyToken e (Some t1))
           = Some (reply NoCookie 401 False ''Invalid or expired token. Please login again.'')
       \<and> rejection (verifyToken e (Some t2))
           = Some (reply NoCookie 401 False ''Invalid or expired token. Please login again.'')"
  using assms by (simp add: rejection_def)

theorem verifyToken_rejects_witness:
  "rejection (verifyToken example_env None)
     = Some (reply NoCookie 401 False ''Unauthorized. Please login to continue.'')
   \<and> rejection (verifyToken example_env (Some []))
     = Some (reply NoCookie 401 False ''Unauthorized. Please login to continue.'')
   \<and> rejection (verifyToken example_env (Some ''garbage''))
     = Some (reply NoCookie 401 False ''Invalid or expired token. Please login again.'')
   \<and> rejection (verifyToken example_env (Some ''expired.jwt.token''))
     = Some (reply NoCookie 401 False ''Invalid or expired token. Please login again.'')"
proof -
  have a: "''garbage'' \<noteq> []" and b: "''expired.jwt.token'' \<noteq> []"
    by simp_all
  have c: "jwt_verify example_env ''garbage'' = Inl (JsonWebTokenError ''jwt malformed'')"
    by (simp add: example_env_def)
  have d: "jwt_verify example_env ''expired.jwt.token'' = Inl TokenExpiredError"
    by (simp add: example_env_def)
  show ?thesis
    by (rule verifyToken_rejects [OF a b c d])
qed

section \<open>Signup when the verification mail cannot be sent\<close>

text \<open>
  C3, as stated: when the dispatch of the verification mail fails, the response still
  is the 201 of a created record. The sender rethrows and the controller's catch
  answers, so the response is a 500.
\<close>

theorem signup_mail_failure_counterexample:
  "status (res (signup (example_env\<lparr>mail_error := Some ''timeout''\<rparr>) []
                 (Some ''a@x.com'') (Some ''Passw0rd!'') (Some ''A''))) = 500"
  by (simp add: example_env_def User_findOne_def User_create_def generateTokenAndSetCookie_def
      sendVerificationEmail_def signup_catch_def out_def reply_def Let_def)

text \<open>
  C3, amended: the dispatch is awaited after the record is created and the session
  cookie is set; when it fails, the failure is logged (by the sender and by the
  controller) and the response is 500 "Server error during signup: Failed to send
  verification email", while the created record stays in the collection and the cookie
  stays on the response.
\<close>

theorem signup_mail_failure:
  assumes "req_email \<noteq> []" and "req_name \<noteq> []" and "8 \<le> length req_password"
    and "db_read_error e = None" and "db_write_error e = None"
    and "req_email \<notin> set (map email s)" and "fresh_id e \<notin> set (map uid s)"
    and "bcrypt_hash e req_password = Inr hashed"
    and "jwt_sign e (fresh_id e) = Inr token"
    and "mail_error e = Some err"
  shows "signup e s (Some req_email) (Some req_password) (Some req_name) =
           out (s @ [new_user e req_email hashed req_name])
               (reply (SetCookie token (production e)) 500 False
                  ''Server error during signup: Failed to send verification email'')
               []
               [''Error sending verification email: '' @ err,
                ''Signup error: Failed to send verification email'']"
proof -
  have pw: "req_password \<noteq> []"
    using assms(3) by auto
  have nf: "find (\<lambda>u. email u = req_email) s = None"
    using assms(6) by (auto simp: find_None_set)
  show ?thesis
    using assms pw nf
    by (simp add: User_findOne_def User_create_def generateTokenAndSetCookie_def
        sendVerificationEmail_def signup_catch_def new_user_def Let_def)
qed

theorem signup_mail_failure_witness:
  "signup (example_env\<lparr>mail_error := Some ''timeout''\<rparr>) []
      (Some ''a@x.com'') (Some ''Passw0rd!'') (Some ''A'') =
   out ([] @ [new_user (example_env\<lparr>mail_error := Some ''timeout''\<rparr>)
                ''a@x.com'' ''$2b$12$Passw0rd!'' ''A''])
       (reply (SetCookie ''signed.jwt.token'' (production (example_env\<lparr>mail_error := Some ''timeout''\<rparr>)))
          500 False ''Server error during signup: Failed to send verification email'')
       []
       [''Error sending verification email: '' @ ''timeout'',
        ''Signup error: Failed to send verification email'']"
proof -
  let ?e = "example_env\<lparr>mail_error := Some ''timeout''\<rparr>"
  have a: "''a@x.com'' \<noteq> []" and b: "''A'' \<noteq> []" and c: "8 \<le> length ''Passw0rd!''"
    by simp_all
  have d: "db_read_error ?e = None" and e: "db_write_error ?e = None"
    by (simp_all add: example_env_def)
  have f: "''a@x.com'' \<notin> set (map email [])" and g: "fresh_id ?e \<notin> set (map uid [])"
    by simp_all
  have h: "bcrypt_hash ?e ''Passw0rd!'' = Inr ''$2b$12$Passw0rd!''"
    by (simp add: example_env_def)
  have i: "jwt_sign ?e (fresh_id ?e) = Inr ''signed.jwt.token''"
    by (simp add: example_env_def)
  have j: "mail_error ?e = Some ''timeout''"
    by simp
  show ?thesis
    by (rule signup_mail_failure [OF a b c d e f g h i j])
qed

section \<open>User objects in response bodies\<close>

lemma sanitized_no_password:
  "\<not> has_key ''password'' (json (spread_set (doc u) ''password'' JUndefined))"
  by (auto simp: has_key_def json_def doc_def opt_field_def split: option.splits)

lemma toJSON_has_password: "(''password'', JStr (password u)) \<in> set (toJSON u)"
  by (simp add: toJSON_def json_def doc_def)

lemma signup_user_objects:
  "obj \<in> set (user_objects (res (signup e s em pw nm))) \<Longrightarrow> \<not> has_key ''password'' obj"
  by (cases "(e, s, em, pw, nm)" rule: signup.cases)
     (auto simp: user_objects_def out_def reply_def signup_catch_def sanitized_no_password Let_def
           split: sum.splits option.splits prod.splits if_splits)

lemma login_user_objects:
  "obj \<in> set (user_objects (res (login e s em pw))) \<Longrightarrow> \<not> has_key ''password'' obj"
  by (cases "(e, s, em, pw)" rule: login.cases)
     (auto simp: user_objects_def out_def reply_def login_catch_def sanitized_no_password Let_def
           split: sum.splits option.splits prod.splits if_splits)

lemma verifyEmail_user_objects:
  "obj \<in> set (user_objects (res (verifyEmail e s code))) \<Longrightarrow> \<not> has_key ''password'' obj"
  by (auto simp: verifyEmail_def user_objects_def out_def reply_def verifyEmail_catch_def
        has_key_def json_def Let_def
      split: sum.splits option.splits prod.splits if_splits)

lemma checkAuth_user_objects:
  "obj \<in> set (user_objects (res (checkAuth e s i))) \<Longrightarrow> \<not> has_key ''password'' obj"
  by (auto simp: checkAuth_def user_objects_def out_def reply_def sanitized_no_password
      split: sum.splits option.splits)

text \<open>
  The other controllers answer without a user object, so outside \<open>getAllUsers\<close> no response
  carries the field.
\<close>

lemma other_controllers_user_objects:
  "user_objects (res (logout e s)) = []"
  "user_objects (res (forgotPassword e s em)) = []"
  "user_objects (res (resetPassword e s token pw)) = []"
proof -
  show "user_objects (res (logout e s)) = []"
    by (simp add: logout_def out_def reply_def user_objects_def)
  show "user_objects (res (forgotPassword e s em)) = []"
    by (auto simp: forgotPassword_def forgotPassword_catch_def out_def reply_def user_objects_def
        Let_def split: sum.splits option.splits prod.splits)
  show "user_objects (res (resetPassword e s token pw)) = []"
    by (cases "(e, s, token, pw)" rule: resetPassword.cases)
       (auto simp: resetPassword_catch_def out_def reply_def user_objects_def
        Let_def split: sum.splits option.splits prod.splits)
qed

lemma getAllUsers_user_objects:
  "db_read_error e = None \<Longrightarrow> user_objects (res (getAllUsers e s)) = map toJSON s"
  by (simp add: getAllUsers_def User_find_def out_def reply_def user_objects_def)

text \<open>
  Every response of every route but \<^verbatim>\<open>GET /\<close> is free of the field.
\<close>

lemma responses_omit_password:
  assumes "handle e s r = Some oc" and "r \<noteq> GetAllUsers"
    and "obj \<in> set (user_objects (res oc))"
  shows "\<not> has_key ''password'' obj"
proof (cases r)
  case (Signup em pw nm)
  then show ?thesis
    using assms signup_user_objects [of obj e s em pw nm] by auto
next
  case (Login em pw)
  then show ?thesis
    using assms login_user_objects [of obj e s em pw] by auto
next
  case Logout
  then show ?thesis
    using assms other_controllers_user_objects(1) [of e s] by auto
next
  case (VerifyEmail code)
  then show ?thesis
    using assms verifyEmail_user_objects [of obj e s code] by auto
next
  case (ForgotPassword em)
  then show ?thesis
    using assms other_controllers_user_objects(2) [of e s em] by auto
next
  case (ResetPassword token pw)
  then show ?thesis
    using assms other_controllers_user_objects(3) [of e s token pw] by auto
next
  case (CheckAuth c)
  show ?thesis
  proof (cases "verifyToken e c")
    case (Rejected resp logs)
    then have "user_objects (res oc) = []"
      using assms(1) CheckAuth
      by (cases c) (auto simp: out_def reply_def user_objects_def split: if_splits sum.splits)
    then show ?thesis
      using assms(3) by simp
  next
    case (Next userId)
    then show ?thesis
      using assms CheckAuth checkAuth_user_objects [of obj e s userId] by auto
  qed
next
  case GetAllUsers
  then show ?thesis
    using assms(2) by simp
qed

text \<open>The collection the evaluation below starts from is the one a first signup leaves.\<close>

lemma example_signup_store:
  "store (signup example_env [] (Some ''a@x.com'') (Some ''Passw0rd!'') (Some ''A'')) = [alice]"
  by (simp add: example_env_def alice_def User_findOne_def User_create_def
      generateTokenAndSetCookie_def sendVerificationEmail_def out_def Let_def)

text \<open>
  C1: no user object in any response carries the password hash. \<open>getAllUsers\<close> hands the
  documents to \<^verbatim>\<open>res.json\<close> as they are, while signup, login and check-auth strip the field
  by hand and verify-email picks four other fields. Outside production, on a collection
  holding one record, the response of \<^verbatim>\<open>GET /\<close> carries that record's hash.
\<close>

theorem getAllUsers_exposes_password:
  "handle example_env [alice] GetAllUsers = Some (getAllUsers example_env [alice])
   \<and> status (res (getAllUsers example_env [alice])) = 200
   \<and> user_objects (res (getAllUsers example_env [alice])) =
       [[(''_id'', JNum 1), (''email'', JStr ''a@x.com''),
         (''password'', JStr ''$2b$12$Passw0rd!''), (''name'', JStr ''A''),
         (''isVerified'', JBool False), (''verificationToken'', JStr ''123456''),
         (''verificationTokenExpiresAt'', JNum 86401000)]]
   \<and> map (has_key ''password'') (user_objects (res (getAllUsers example_env [alice]))) = [True]"
  by (simp add: getAllUsers_def User_find_def example_env_def alice_def out_def reply_def
      user_objects_def toJSON_def json_def doc_def opt_field_def has_key_def)

section \<open>Failed logins\<close>

text \<open>
  C4, as stated: login fails with the same 401 and message whether the email is
  unregistered or the password is wrong for a registered user. For a registered user
  who has not verified the email, the controller answers 403 before it compares the
  password.
\<close>

theorem login_unverified_wrong_password_counterexample:
  "res (login example_env [alice] (Some ''a@x.com'') (Some ''wrong-password''))
     = reply NoCookie 403 False ''Please verify your email before logging in.''
   \<and> res (login example_env [alice] (Some ''nobody@x.com'') (Some ''wrong-password''))
     = reply NoCookie 401 False ''Invalid email or password.''"
  by (simp add: example_env_def alice_def User_findOne_def out_def)

text \<open>
  C4, amended: login fails identically, with 401 "Invalid email or password." and no
  other effect, whether the submitted email belongs to no registered user or the
  submitted password is wrong for a registered user whose email is verified.
\<close>

theorem login_fails_identically:
  assumes "wf_store s" and "db_read_error e = None" and "db_read_error e' = None"
    and "em \<noteq> []" and "em \<notin> set (map email s)" and "pw \<noteq> []"
    and "u \<in> set s" and "email u \<noteq> []" and "isVerified u"
    and "pw' \<noteq> []" and "bcrypt_compare e' pw' (password u) = Inr False"
  shows "login e s (Some em) (Some pw) =
           out s (reply NoCookie 401 False ''Invalid email or password.'') [] []
       \<and> login e' s (Some (email u)) (Some pw') =
           out s (reply NoCookie 401 False ''Invalid email or password.'') [] []"
  using assms by (simp add: findOne_registered findOne_unregistered)

theorem login_fails_identically_witness:
  "login example_env [bob] (Some ''nobody@x.com'') (Some ''hunter2hunter2'') =
     out [bob] (reply NoCookie 401 False ''Invalid email or password.'') [] []
   \<and> login example_env [bob] (Some (email bob)) (Some ''wrong-password'') =
     out [bob] (reply NoCookie 401 False ''Invalid email or password.'') [] []"
proof -
  have a: "wf_store [bob]"
    by (simp add: wf_store_def)
  have b: "db_read_error example_env = None"
    by (simp add: example_env_def)
  have c: "''nobody@x.com'' \<noteq> []" and d: "''nobody@x.com'' \<notin> set (map email [bob])"
    and f: "''hunter2hunter2'' \<noteq> []"
    by (simp_all add: bob_def)
  have g: "bob \<in> set [bob]" and h: "email bob \<noteq> []" and i: "isVerified bob"
    and j: "''wrong-password'' \<noteq> []"
    by (simp_all add: bob_def)
  have k: "bcrypt_compare example_env ''wrong-password'' (password bob) = Inr False"
    by (simp add: example_env_def bob_def)
  show ?thesis
    by (rule login_fails_identically [OF a b b c d f g h i j k])
qed

text \<open>
  C9: for a registered user whose email is not verified, login answers 403 "Please
  verify your email before logging in." whatever the submitted password is and whatever
  the hash comparison would give (it is not reached), and this differs from the 401 an
  unregistered email gets.
\<close>

theorem login_unverified_forbidden:
  assumes "wf_store s" and "u \<in> set s" and "\<not> isVerified u" and "email u \<noteq> []"
    and "db_read_error e = None" and "pw \<noteq> []"
    and "db_read_error e' = None" and "pw' \<noteq> []"
    and "em \<noteq> []" and "em \<notin> set (map email s)"
  shows "login e s (Some (email u)) (Some pw) =
           out s (reply NoCookie 403 False ''Please verify your email before logging in.'') [] []
       \<and> login e' s (Some (email u)) (Some pw') = login e s (Some (email u)) (Some pw)
       \<and> status (res (login e s (Some em) (Some pw))) = 401"
  using assms by (simp add: findOne_registered findOne_unregistered out_def reply_def)

theorem login_unverified_forbidden_witness:
  "login example_env [alice] (Some (email alice)) (Some ''Passw0rd!'') =
     out [alice] (reply NoCookie 403 False ''Please verify your email before logging in.'') [] []
   \<and> login (example_env\<lparr>bcrypt_compare := \<lambda>p h. Inl ''not reached''\<rparr>) [alice]
        (Some (email alice)) (Some ''wrong-password'')
     = login example_env [alice] (Some (email alice)) (Some ''Passw0rd!'')
   \<and> status (res (login example_env [alice] (Some ''nobody@x.com'') (Some ''Passw0rd!''))) = 401"
proof -
  let ?e' = "example_env\<lparr>bcrypt_compare := \<lambda>p h. Inl ''not reached''\<rparr>"
  have a: "wf_store [alice]"
    by (simp add: wf_store_def)
  have b: "alice \<in> set [alice]" and c: "\<not> isVerified alice" and d: "email alice \<noteq> []"
    by (simp_all add: alice_def)
  have f: "db_read_error example_env = None" and g: "''Passw0rd!'' \<noteq> []"
    and h: "db_read_error ?e' = None" and i: "''wrong-password'' \<noteq> []"
    by (simp_all add: example_env_def)
  have j: "''nobody@x.com'' \<noteq> []" and k: "''nobody@x.com'' \<notin> set (map email [alice])"
    by (simp_all add: alice_def)
  show ?thesis
    by (rule login_unverified_forbidden [OF a b c d f g h i j k])
qed

section \<open>Reset password\<close>

lemma resetPassword_no_match:
  assumes "find (reset_matches token (now e)) s = None" and "db_read_error e = None"
    and "8 \<le> length pw"
  shows "resetPassword e s token (Some pw) =
           out s (reply NoCookie 400 False ''Invalid or expired reset token.'') [] []"
proof -
  have "pw \<noteq> []"
    using assms(3) by auto
  then show ?thesis
    using assms by (simp add: User_findOne_def)
qed

text \<open>Without a matching unexpired token nothing is written, whatever else the request holds.\<close>

lemma resetPassword_store_unchanged:
  "find (reset_matches token (now e)) s = None \<Longrightarrow> store (resetPassword e s token pw) = s"
  by (cases "(e, s, token, pw)" rule: resetPassword.cases)
     (auto simp: out_def resetPassword_catch_def User_findOne_def split: option.splits)

text \<open>
  C6: a reset-password request (with a password that passes the length check, the
  lookup being answered by the store) whose token no record holds, or only records
  whose expiry is not greater than now, is answered 400 "Invalid or expired reset
  token." and leaves the collection as it was, in particular every password hash. The
  collection is left as it was also when the password is absent or short and when the
  lookup faults.
\<close>

theorem resetPassword_invalid_token:
  assumes "\<forall>u\<in>set s. resetPasswordToken u = Some token \<longrightarrow>
             (\<forall>x. resetPasswordExpiresAt u = Some x \<longrightarrow> x \<le> now e)"
    and "8 \<le> length pw" and "db_read_error e = None"
  shows "resetPassword e s token (Some pw) =
           out s (reply NoCookie 400 False ''Invalid or expired reset token.'') [] []
       \<and> store (resetPassword e s token (Some pw)) = s
       \<and> map password (store (resetPassword e s token (Some pw))) = map password s
       \<and> store (resetPassword (e\<lparr>db_read_error := fault\<rparr>) s token any_password) = s"
proof -
  have nf: "find (reset_matches token (now e)) s = None"
    using assms(1) by (auto simp: find_None_set reset_matches_def split: option.splits)
  have "resetPassword e s token (Some pw) =
           out s (reply NoCookie 400 False ''Invalid or expired reset token.'') [] []"
    by (rule resetPassword_no_match [OF nf assms(3) assms(2)])
  moreover have "store (resetPassword (e\<lparr>db_read_error := fault\<rparr>) s token any_password) = s"
    using nf by (simp add: resetPassword_store_unchanged)
  ultimately show ?thesis
    by (simp add: out_def)
qed

theorem resetPassword_invalid_token_witness:
  "resetPassword (example_env\<lparr>now := 3601000\<rparr>) [alice, bob] ''9f86d081884c7d659a2f''
       (Some ''N3wPassw0rd'') =
     out [alice, bob] (reply NoCookie 400 False ''Invalid or expired reset token.'') [] []
   \<and> store (resetPassword (example_env\<lparr>now := 3601000\<rparr>) [alice, bob]
               ''9f86d081884c7d659a2f'' (Some ''N3wPassw0rd'')) = [alice, bob]
   \<and> map password (store (resetPassword (example_env\<lparr>now := 3601000\<rparr>) [alice, bob]
                             ''9f86d081884c7d659a2f'' (Some ''N3wPassw0rd'')))
     = map password [alice, bob]
   \<and> store (resetPassword (example_env\<lparr>now := 3601000, db_read_error := Some ''down''\<rparr>)
               [alice, bob] ''9f86d081884c7d659a2f'' (Some ''short'')) = [alice, bob]"
proof -
  have a: "\<forall>u\<in>set [alice, bob]. resetPasswordToken u = Some ''9f86d081884c7d659a2f'' \<longrightarrow>
             (\<forall>x. resetPasswordExpiresAt u = Some x \<longrightarrow> x \<le> now (example_env\<lparr>now := 3601000\<rparr>))"
    by (simp add: alice_def bob_def)
  have b: "8 \<le> length ''N3wPassw0rd''"
    by simp
  have c: "db_read_error (example_env\<lparr>now := 3601000\<rparr>) = None"
    by (simp add: example_env_def)
  show ?thesis
    by (rule resetPassword_invalid_token [OF a b c])
qed

text \<open>
  C10: when the token lookup of reset-password has succeeded and the confirmation mail
  then cannot be sent, the response is 500 "Server error during password reset.", and
  the save made before is in the collection: the record found has the hash of the new
  password and no reset token or expiry. The collection is not what it was.
\<close>

theorem resetPassword_mail_failure_persists:
  assumes "8 \<le> length pw" and "db_read_error e = None" and "db_write_error e = None"
    and "find (reset_matches token (now e)) s = Some u"
    and "bcrypt_hash e pw = Inr hashed"
    and "mail_error e = Some err"
  shows "res (resetPassword e s token (Some pw)) =
           reply NoCookie 500 False ''Server error during password reset.''
       \<and> store (resetPassword e s token (Some pw)) = save_as u (with_password hashed u) s
       \<and> with_password hashed u \<in> set (store (resetPassword e s token (Some pw)))
       \<and> store (resetPassword e s token (Some pw)) \<noteq> s"
proof -
  let ?s' = "save_as u (with_password hashed u) s"
  have pw: "pw \<noteq> []"
    using assms(1) by auto
  have oc: "resetPassword e s token (Some pw) =
      resetPassword_catch ?s' [''Error sending password reset success email: '' @ err]
        ''Failed to send password reset success email''"
    using assms pw
    by (simp add: User_findOne_def User_save_def sendPasswordResetSuccessEmail_def Let_def
        save_as_def with_password_def)
  have u: "u \<in> set s" "resetPasswordToken u = Some token"
    using find_Some_set [OF assms(4)] by (auto simp: reset_matches_def)
  have "resetPasswordToken (with_password hashed u) \<noteq> resetPasswordToken u"
    using u(2) by (simp add: with_password_def)
  then have "with_password hashed u \<noteq> u"
    by auto
  then have "?s' \<noteq> s"
    by (rule save_as_changes [OF u(1)])
  moreover have "with_password hashed u \<in> set ?s'"
    using u(1) by (auto simp: save_as_def image_iff)
  ultimately show ?thesis
    using oc by (simp add: resetPassword_catch_def out_def)
qed

theorem resetPassword_mail_failure_persists_witness:
  "res (resetPassword (example_env\<lparr>mail_error := Some ''timeout''\<rparr>) [alice, bob]
          ''9f86d081884c7d659a2f'' (Some ''N3wPassw0rd'')) =
     reply NoCookie 500 False ''Server error during password reset.''
   \<and> store (resetPassword (example_env\<lparr>mail_error := Some ''timeout''\<rparr>) [alice, bob]
          ''9f86d081884c7d659a2f'' (Some ''N3wPassw0rd'')) =
     save_as bob (with_password ''$2b$12$N3wPassw0rd'' bob) [alice, bob]
   \<and> with_password ''$2b$12$N3wPassw0rd'' bob
       \<in> set (store (resetPassword (example_env\<lparr>mail_error := Some ''timeout''\<rparr>) [alice, bob]
          ''9f86d081884c7d659a2f'' (Some ''N3wPassw0rd'')))
   \<and> store (resetPassword (example_env\<lparr>mail_error := Some ''timeout''\<rparr>) [alice, bob]
          ''9f86d081884c7d659a2f'' (Some ''N3wPassw0rd'')) \<noteq> [alice, bob]"
proof -
  let ?e = "example_env\<lparr>mail_error := Some ''timeout''\<rparr>"
  have a: "8 \<le> length ''N3wPassw0rd''"
    by simp
  have b: "db_read_error ?e = None" and c: "db_write_error ?e = None"
    by (simp_all add: example_env_def)
  have d: "find (reset_matches ''9f86d081884c7d659a2f'' (now ?e)) [alice, bob] = Some bob"
    by (simp add: example_env_def alice_def bob_def reset_matches_def)
  have f: "bcrypt_hash ?e ''N3wPassw0rd'' = Inr ''$2b$12$N3wPassw0rd''"
    by (simp add: example_env_def)
  have g: "mail_error ?e = Some ''timeout''"
    by simp
  show ?thesis
    by (rule resetPassword_mail_failure_persists [OF a b c d f g])
qed

section \<open>One-time codes\<close>

lemma verifyEmail_success:
  assumes "status (res (verifyEmail e s code)) = 200"
  shows "\<exists>u. find (verification_matches code (now e)) s = Some u
           \<and> store (verifyEmail e s code) = save_as u (verified u) s"
  using assms
  by (auto simp: verifyEmail_def out_def reply_def verifyEmail_catch_def User_findOne_def
      User_save_def Let_def save_as_def verified_def
      split: sum.splits option.splits prod.splits)

lemma resetPassword_success:
  assumes "status (res (resetPassword e s token pw)) = 200"
  shows "\<exists>u h. find (reset_matches token (now e)) s = Some u
           \<and> store (resetPassword e s token pw) = save_as u (with_password h u) s"
  using assms
  by (cases "(e, s, token, pw)" rule: resetPassword.cases)
     (auto simp: out_def reply_def resetPassword_catch_def User_findOne_def
      User_save_def Let_def save_as_def with_password_def
      split: sum.splits option.splits prod.splits if_splits)

lemma verifyEmail_no_match:
  assumes "find (verification_matches code (now e)) s = None" and "db_read_error e = None"
  shows "verifyEmail e s code =
           out s (reply NoCookie 400 False ''Invalid or expired verification code.'') [] []"
  using assms by (simp add: verifyEmail_def User_findOne_def)

lemma consumed_code_matches_nothing:
  assumes "find (verification_matches code t) s = Some u"
    and "length (filter (\<lambda>v. verificationToken v = code) s) \<le> 1"
  shows "find (verification_matches code t') (save_as u (verified u) s) = None"
proof -
  have u: "u \<in> set s" "verificationToken u = code"
    using find_Some_set [OF assms(1)] by (auto simp: verification_matches_def)
  have "\<not> verification_matches code t' v" if "v \<in> set (save_as u (verified u) s)" for v
  proof -
    from that consider "v = verified u" | "v \<in> set s" "uid v \<noteq> uid u"
      by (auto simp: save_as_def split: if_splits)
    then show ?thesis
    proof cases
      case 1
      then show ?thesis
        by (simp add: verification_matches_def verified_def)
    next
      case 2
      then have "verificationToken v \<noteq> code"
        using sole_holder [OF assms(2) u(1) u(2), of v] by auto
      then show ?thesis
        by (simp add: verification_matches_def)
    qed
  qed
  then show ?thesis
    by (simp add: find_None_set)
qed

lemma consumed_token_matches_nothing:
  assumes "find (reset_matches token t) s = Some u"
    and "length (filter (\<lambda>v. resetPasswordToken v = Some token) s) \<le> 1"
  shows "find (reset_matches token t') (save_as u (with_password h u) s) = None"
proof -
  have u: "u \<in> set s" "resetPasswordToken u = Some token"
    using find_Some_set [OF assms(1)] by (auto simp: reset_matches_def)
  have "\<not> reset_matches token t' v" if "v \<in> set (save_as u (with_password h u) s)" for v
  proof -
    from that consider "v = with_password h u" | "v \<in> set s" "uid v \<noteq> uid u"
      by (auto simp: save_as_def split: if_splits)
    then show ?thesis
    proof cases
      case 1
      then show ?thesis
        by (simp add: reset_matches_def with_password_def)
    next
      case 2
      then have "resetPasswordToken v \<noteq> Some token"
        using sole_holder [OF assms(2) u(1) u(2), of v] by auto
      then show ?thesis
        by (simp add: reset_matches_def)
    qed
  qed
  then show ?thesis
    by (simp add: find_None_set)
qed

lemma unissued_code_matches_nothing:
  "code \<notin> set (map verificationToken s) \<Longrightarrow> find (verification_matches code t) s = None"
  by (auto simp: find_None_set verification_matches_def)

lemma unissued_token_matches_nothing:
  "Some token \<notin> set (map resetPasswordToken s) \<Longrightarrow> find (reset_matches token t) s = None"
  by (force simp: find_None_set reset_matches_def image_iff)

text \<open>
  C5, as stated: after a successful verify-email, a second request with the same code
  fails with 400. The codes are not unique across records: a second signup can be given
  the code of the first, and then the second request with that code verifies the second
  account.
\<close>

theorem verification_code_reuse_counterexample:
  "store (signup (example_env\<lparr>fresh_id := 3\<rparr>) [alice]
            (Some ''c@x.com'') (Some ''Passw0rd?'') (Some ''C'')) = [alice, carol]
   \<and> status (res (verifyEmail example_env [alice, carol] (Some ''123456''))) = 200
   \<and> status (res (verifyEmail example_env
                     (store (verifyEmail example_env [alice, carol] (Some ''123456'')))
                     (Some ''123456''))) = 200"
  by (simp add: example_env_def alice_def carol_def User_findOne_def User_create_def User_save_def
      generateTokenAndSetCookie_def sendVerificationEmail_def sendWelcomeEmail_def
      verifyEmail_def verification_matches_def out_def reply_def Let_def)

text \<open>
  C5, amended: a successful verify-email (resp. reset-password) is one save that, with
  the state change it authorises, clears both the token and its expiry of the record
  found. When no other record holds the same code, a second request presenting it
  (the lookup being answered by the store, and for reset-password the new password
  passing the length check) fails with 400 "Invalid or expired verification code."
  (resp. "Invalid or expired reset token."), exactly as a request presenting a code that
  no record holds.
\<close>

theorem one_time_codes_single_use:
  "(status (res (verifyEmail e s code)) = 200
      \<and> length (filter (\<lambda>v. verificationToken v = code) s) \<le> 1
      \<and> db_read_error e' = None
      \<and> other \<notin> set (map verificationToken (store (verifyEmail e s code)))
    \<longrightarrow> (\<exists>u. find (verification_matches code (now e)) s = Some u
              \<and> store (verifyEmail e s code) = save_as u (verified u) s)
        \<and> verifyEmail e' (store (verifyEmail e s code)) code =
            out (store (verifyEmail e s code))
                (reply NoCookie 400 False ''Invalid or expired verification code.'') [] []
        \<and> verifyEmail e' (store (verifyEmail e s code)) other =
            verifyEmail e' (store (verifyEmail e s code)) code)
   \<and> (status (res (resetPassword e1 s1 token pw)) = 200
      \<and> length (filter (\<lambda>v. resetPasswordToken v = Some token) s1) \<le> 1
      \<and> db_read_error e1' = None \<and> 8 \<le> length pw'
      \<and> Some token' \<notin> set (map resetPasswordToken (store (resetPassword e1 s1 token pw)))
    \<longrightarrow> (\<exists>u h. find (reset_matches token (now e1)) s1 = Some u
              \<and> store (resetPassword e1 s1 token pw) = save_as u (with_password h u) s1)
        \<and> resetPassword e1' (store (resetPassword e1 s1 token pw)) token (Some pw') =
            out (store (resetPassword e1 s1 token pw))
                (reply NoCookie 400 False ''Invalid or expired reset token.'') [] []
        \<and> resetPassword e1' (store (resetPassword e1 s1 token pw)) token' (Some pw') =
            resetPassword e1' (store (resetPassword e1 s1 token pw)) token (Some pw'))"
proof (intro conjI impI)
  assume a: "status (res (verifyEmail e s code)) = 200
      \<and> length (filter (\<lambda>v. verificationToken v = code) s) \<le> 1
      \<and> db_read_error e' = None
      \<and> other \<notin> set (map verificationToken (store (verifyEmail e s code)))"
  then obtain u where u: "find (verification_matches code (now e)) s = Some u"
      "store (verifyEmail e s code) = save_as u (verified u) s"
    using verifyEmail_success by blast
  then show "\<exists>u. find (verification_matches code (now e)) s = Some u
              \<and> store (verifyEmail e s code) = save_as u (verified u) s"
    by blast
  have "find (verification_matches code (now e')) (store (verifyEmail e s code)) = None"
    using consumed_code_matches_nothing [OF u(1)] a u(2) by simp
  then show second: "verifyEmail e' (store (verifyEmail e s code)) code =
            out (store (verifyEmail e s code))
                (reply NoCookie 400 False ''Invalid or expired verification code.'') [] []"
    using a by (simp add: verifyEmail_no_match)
  have "find (verification_matches other (now e')) (store (verifyEmail e s code)) = None"
    using a by (simp add: unissued_code_matches_nothing)
  then show "verifyEmail e' (store (verifyEmail e s code)) other =
            verifyEmail e' (store (verifyEmail e s code)) code"
    using a second by (simp add: verifyEmail_no_match)
next
  assume a: "status (res (resetPassword e1 s1 token pw)) = 200
      \<and> length (filter (\<lambda>v. resetPasswordToken v = Some token) s1) \<le> 1
      \<and> db_read_error e1' = None \<and> 8 \<le> length pw'
      \<and> Some token' \<notin> set (map resetPasswordToken (store (resetPassword e1 s1 token pw)))"
  then obtain u h where u: "find (reset_matches token (now e1)) s1 = Some u"
      "store (resetPassword e1 s1 token pw) = save_as u (with_password h u) s1"
    using resetPassword_success by blast
  then show "\<exists>u h. find (reset_matches token (now e1)) s1 = Some u
              \<and> store (resetPassword e1 s1 token pw) = save_as u (with_password h u) s1"
    by blast
  have r: "db_read_error e1' = None" and l: "8 \<le> length pw'"
    using a by simp_all
  have "find (reset_matches token (now e1')) (store (resetPassword e1 s1 token pw)) = None"
    using consumed_token_matches_nothing [OF u(1)] a u(2) by simp
  then show second: "resetPassword e1' (store (resetPassword e1 s1 token pw)) token (Some pw') =
            out (store (resetPassword e1 s1 token pw))
                (reply NoCookie 400 False ''Invalid or expired reset token.'') [] []"
    by (rule resetPassword_no_match [OF _ r l])
  have "find (reset_matches token' (now e1')) (store (resetPassword e1 s1 token pw)) = None"
    using a by (simp add: unissued_token_matches_nothing)
  then have "resetPassword e1' (store (resetPassword e1 s1 token pw)) token' (Some pw') =
            out (store (resetPassword e1 s1 token pw))
                (reply NoCookie 400 False ''Invalid or expired reset token.'') [] []"
    by (rule resetPassword_no_match [OF _ r l])
  then show "resetPassword e1' (store (resetPassword e1 s1 token pw)) token' (Some pw') =
            resetPassword e1' (store (resetPassword e1 s1 token pw)) token (Some pw')"
    using second by simp
qed

theorem one_time_codes_single_use_witness:
  "status (res (verifyEmail example_env [alice, bob] (Some ''123456''))) = 200
   \<and> verifyEmail (example_env\<lparr>now := 2000\<rparr>)
        (store (verifyEmail example_env [alice, bob] (Some ''123456''))) (Some ''123456'') =
      out (store (verifyEmail example_env [alice, bob] (Some ''123456'')))
          (reply NoCookie 400 False ''Invalid or expired verification code.'') [] []
   \<and> status (res (resetPassword example_env [alice, bob] ''9f86d081884c7d659a2f''
                     (Some ''N3wPassw0rd''))) = 200
   \<and> resetPassword (example_env\<lparr>now := 2000\<rparr>)
        (store (resetPassword example_env [alice, bob] ''9f86d081884c7d659a2f''
                  (Some ''N3wPassw0rd'')))
        ''9f86d081884c7d659a2f'' (Some ''An0therPassw0rd'') =
      out (store (resetPassword example_env [alice, bob] ''9f86d081884c7d659a2f''
                    (Some ''N3wPassw0rd'')))
          (reply NoCookie 400 False ''Invalid or expired reset token.'') [] []"
proof -
  let ?e' = "example_env\<lparr>now := 2000\<rparr>"
  have v: "status (res (verifyEmail example_env [alice, bob] (Some ''123456''))) = 200
      \<and> length (filter (\<lambda>v. verificationToken v = Some ''123456'') [alice, bob]) \<le> 1
      \<and> db_read_error ?e' = None
      \<and> Some ''000000'' \<notin> set (map verificationToken
            (store (verifyEmail example_env [alice, bob] (Some ''123456''))))"
    by (simp add: example_env_def alice_def bob_def User_findOne_def User_save_def
        generateTokenAndSetCookie_def sendWelcomeEmail_def
        verifyEmail_def verification_matches_def out_def reply_def Let_def)
  have r: "status (res (resetPassword example_env [alice, bob] ''9f86d081884c7d659a2f''
                     (Some ''N3wPassw0rd''))) = 200
      \<and> length (filter (\<lambda>v. resetPasswordToken v = Some ''9f86d081884c7d659a2f'') [alice, bob]) \<le> 1
      \<and> db_read_error ?e' = None \<and> 8 \<le> length ''An0therPassw0rd''
      \<and> Some ''0000'' \<notin> set (map resetPasswordToken
            (store (resetPassword example_env [alice, bob] ''9f86d081884c7d659a2f''
                     (Some ''N3wPassw0rd''))))"
    by (simp add: example_env_def alice_def bob_def User_findOne_def User_save_def
        sendPasswordResetSuccessEmail_def reset_matches_def out_def reply_def Let_def)
  show ?thesis
    using v r
      one_time_codes_single_use [where e = example_env and s = "[alice, bob]"
        and code = "Some ''123456''" and e' = ?e' and other = "Some ''000000''"
        and ?e1.0 = example_env and ?s1.0 = "[alice, bob]" and token = "''9f86d081884c7d659a2f''"
        and pw = "Some ''N3wPassw0rd''" and e1' = ?e' and pw' = "''An0therPassw0rd''"
        and token' = "''0000''"]
    by blast
qed

section \<open>The verified flag\<close>

lemma flag_monotone_refl: "flag_monotone s s"
  by (auto simp: flag_monotone_def)

lemma flag_monotone_trans:
  assumes "flag_monotone s s'" and "flag_monotone s' s''"
  shows "flag_monotone s s''"
  unfolding flag_monotone_def
proof (intro ballI)
  fix u assume u: "u \<in> set s"
  show "(\<exists>u'\<in>set s''. uid u' = uid u \<and> (isVerified u \<longrightarrow> isVerified u'))
        \<or> (\<not> isVerified u \<and> uid u \<notin> set (map uid s''))"
  proof (cases "isVerified u")
    case True
    then obtain u' where u': "u' \<in> set s'" "uid u' = uid u" "isVerified u'"
      using assms(1) u unfolding flag_monotone_def by blast
    then obtain u'' where "u'' \<in> set s''" "uid u'' = uid u'" "isVerified u''"
      using assms(2) unfolding flag_monotone_def by blast
    then show ?thesis
      using u'(2) by auto
  next
    case False
    then show ?thesis
      by (auto simp: image_iff)
  qed
qed

lemma saved_wf:
  assumes "wf_store s" and "saved s s'"
  shows "wf_store s'"
proof -
  obtain w w' where w: "w \<in> set s" "uid w' = uid w" "email w' = email w"
    and s': "s' = save_as w w' s"
    using assms(2) by (auto simp: saved_def)
  have d: "distinct (map uid s)"
    using assms(1) by (simp add: wf_store_def)
  have "map uid s' = map uid s"
    using w(2) by (simp add: s' save_as_def comp_def cong: map_cong)
  moreover have "map email s' = map email s"
    unfolding s' save_as_def using same_uid_same_record [OF d _ w(1)] w(3) by (auto simp: comp_def)
  ultimately show ?thesis
    using assms(1) by (simp add: wf_store_def)
qed

lemma saved_flag_monotone:
  assumes "wf_store s" and "saved s s'"
  shows "flag_monotone s s'"
proof -
  obtain w w' where w: "w \<in> set s" "uid w' = uid w" "isVerified w \<longrightarrow> isVerified w'"
    and s': "s' = save_as w w' s"
    using assms(2) by (auto simp: saved_def)
  have d: "distinct (map uid s)"
    using assms(1) by (simp add: wf_store_def)
  have "\<exists>u'\<in>set s'. uid u' = uid u \<and> (isVerified u \<longrightarrow> isVerified u')" if u: "u \<in> set s" for u
  proof (cases "uid u = uid w")
    case True
    then have "u = w"
      using same_uid_same_record [OF d u w(1)] by simp
    moreover have "w' \<in> set s'"
      using w(1) by (auto simp: s' save_as_def image_iff)
    ultimately show ?thesis
      using True w(2,3) by auto
  next
    case False
    then have "u \<in> set s'"
      using u by (auto simp: s' save_as_def image_iff)
    then show ?thesis
      by auto
  qed
  then show ?thesis
    by (simp add: flag_monotone_def)
qed

lemma save_saved:
  assumes "find P s = Some u" and "User_save e u' s = Inr s'"
    and "uid u' = uid u" and "email u' = email u" and "isVerified u \<longrightarrow> isVerified u'"
  shows "saved s s'"
proof -
  have "u \<in> set s"
    using find_Some_set [OF assms(1)] by simp
  moreover have "s' = save_as u u' s"
    using assms(2,3) by (auto simp: User_save_def save_as_def split: option.splits)
  ultimately show ?thesis
    unfolding saved_def using assms(3,4,5) by blast
qed

lemma login_store: "store (login e s em pw) = s \<or> saved s (store (login e s em pw))"
  by (cases "(e, s, em, pw)" rule: login.cases)
     (auto simp: out_def login_catch_def User_findOne_def Let_def
      split: sum.splits option.splits if_splits
      intro: save_saved [where u'="u\<lparr>lastLogin := x\<rparr>" for u x])

lemma verifyEmail_store: "store (verifyEmail e s code) = s \<or> saved s (store (verifyEmail e s code))"
  by (auto simp: verifyEmail_def out_def verifyEmail_catch_def User_findOne_def Let_def
      split: sum.splits option.splits if_splits prod.splits
      intro: save_saved [where u'="u\<lparr>isVerified := True, verificationToken := None,
                       verificationTokenExpiresAt := None\<rparr>" for u])

lemma forgotPassword_store:
  "store (forgotPassword e s em) = s \<or> saved s (store (forgotPassword e s em))"
  by (auto simp: forgotPassword_def out_def forgotPassword_catch_def User_findOne_def Let_def
      split: sum.splits option.splits if_splits prod.splits
      intro: save_saved [where u'="u\<lparr>resetPasswordToken := x,
                       resetPasswordExpiresAt := y\<rparr>" for u x y])

lemma resetPassword_store:
  "store (resetPassword e s token pw) = s \<or> saved s (store (resetPassword e s token pw))"
  by (cases "(e, s, token, pw)" rule: resetPassword.cases)
     (auto simp: out_def resetPassword_catch_def User_findOne_def Let_def
      split: sum.splits option.splits if_splits prod.splits
      intro: save_saved [where u'="u\<lparr>password := h, resetPasswordToken := None,
                               resetPasswordExpiresAt := None\<rparr>" for u h])

lemma signup_store:
  "store (signup e s em pw nm) = s \<or>
   (\<exists>u. uid u \<notin> set (map uid s) \<and> email u \<notin> set (map email s)
        \<and> store (signup e s em pw nm) = s @ [u])"
  by (cases "(e, s, em, pw, nm)" rule: signup.cases)
     (auto simp: out_def signup_catch_def User_create_def Let_def
      split: sum.splits option.splits if_splits prod.splits)

lemma sweep_store:
  "fst (sweep e s) = s \<or> fst (sweep e s) = filter (\<lambda>u. \<not> expired_unverified (now e) u) s"
  by (auto simp: sweep_def User_find_def User_deleteMany_def split: option.splits)

lemma checkAuth_store: "store (checkAuth e s i) = s"
  by (auto simp: checkAuth_def User_findById_def out_def split: sum.splits option.splits)

lemma getAllUsers_store: "store (getAllUsers e s) = s"
  by (auto simp: getAllUsers_def out_def split: sum.splits)

lemma appended_wf:
  "wf_store s \<Longrightarrow> uid u \<notin> set (map uid s) \<Longrightarrow> email u \<notin> set (map email s) \<Longrightarrow> wf_store (s @ [u])"
  by (auto simp: wf_store_def)

lemma appended_flag_monotone: "flag_monotone s (s @ [u])"
  by (auto simp: flag_monotone_def)

lemma swept_wf: "wf_store s \<Longrightarrow> wf_store (filter P s)"
  by (simp add: wf_store_def distinct_map_filter)

lemma swept_flag_monotone:
  "wf_store s \<Longrightarrow> flag_monotone s (filter (\<lambda>u. \<not> expired_unverified t u) s)"
  unfolding flag_monotone_def
proof (intro ballI)
  fix u assume wf: "wf_store s" and u: "u \<in> set s"
  let ?s' = "filter (\<lambda>u. \<not> expired_unverified t u) s"
  show "(\<exists>u'\<in>set ?s'. uid u' = uid u \<and> (isVerified u \<longrightarrow> isVerified u'))
        \<or> (\<not> isVerified u \<and> uid u \<notin> set (map uid ?s'))"
  proof (cases "expired_unverified t u")
    case False
    then have "u \<in> set ?s'"
      using u by simp
    then show ?thesis
      by blast
  next
    case True
    have d: "distinct (map uid s)"
      using wf by (simp add: wf_store_def)
    have "uid u \<notin> set (map uid ?s')"
    proof
      assume "uid u \<in> set (map uid ?s')"
      then obtain v where v: "v \<in> set s" "\<not> expired_unverified t v" "uid v = uid u"
        by auto
      then have "v = u"
        using same_uid_same_record [OF d v(1) u] by simp
      then show False
        using v(2) True by simp
    qed
    moreover have "\<not> isVerified u"
      using True by (simp add: expired_unverified_def)
    ultimately show ?thesis
      by blast
  qed
qed

lemma request_store:
  assumes "handle e s r = Some oc"
  shows "store oc = s \<or> saved s (store oc) \<or>
         (\<exists>u. uid u \<notin> set (map uid s) \<and> email u \<notin> set (map email s) \<and> store oc = s @ [u])"
proof (cases r)
  case (Signup em pw nm)
  then show ?thesis
    using assms signup_store [of e s em pw nm] by auto
next
  case (Login em pw)
  then show ?thesis
    using assms login_store [of e s em pw] by auto
next
  case Logout
  then show ?thesis
    using assms by (auto simp: logout_def out_def)
next
  case (VerifyEmail code)
  then show ?thesis
    using assms verifyEmail_store [of e s code] by auto
next
  case (ForgotPassword em)
  then show ?thesis
    using assms forgotPassword_store [of e s em] by auto
next
  case (ResetPassword token pw)
  then show ?thesis
    using assms resetPassword_store [of e s token pw] by auto
next
  case (CheckAuth c)
  then show ?thesis
    using assms by (auto simp: checkAuth_store out_def split: mw_result.splits)
next
  case GetAllUsers
  then show ?thesis
    using assms by (auto simp: getAllUsers_store split: if_splits)
qed

text \<open>The unique indexes hold after every event, and no event unsets a flag.\<close>

lemma step_invariant:
  assumes "wf_store s"
  shows "wf_store (step e ev s) \<and> flag_monotone s (step e ev s)"
proof (cases ev)
  case (Request r)
  show ?thesis
  proof (cases "handle e s r")
    case None
    then show ?thesis
      using Request assms by (simp add: flag_monotone_refl)
  next
    case (Some oc)
    then have st: "step e ev s = store oc"
      using Request by simp
    from request_store [OF Some] show ?thesis
      unfolding st
      using assms saved_wf saved_flag_monotone appended_wf appended_flag_monotone
        flag_monotone_refl by metis
  qed
next
  case SweepTick
  then show ?thesis
    using sweep_store [of e s] assms swept_wf swept_flag_monotone flag_monotone_refl
    by (metis step.simps(2))
qed

lemma run_invariant:
  "wf_store s \<Longrightarrow> wf_store (run evs s) \<and> flag_monotone s (run evs s)"
proof (induction evs arbitrary: s)
  case Nil
  then show ?case
    by (simp add: flag_monotone_refl)
next
  case (Cons a evs)
  obtain e ev where a: "a = (e, ev)"
    by (cases a)
  have 1: "wf_store (step e ev s)" "flag_monotone s (step e ev s)"
    using step_invariant [OF Cons.prems] by simp_all
  have 2: "wf_store (run evs (step e ev s))" "flag_monotone (step e ev s) (run evs (step e ev s))"
    using Cons.IH [OF 1(1)] by simp_all
  show ?case
    using 1 2 flag_monotone_trans by (auto simp: a)
qed

text \<open>
  C8: through any sequence of signup, login, verify-email, forgot-password,
  reset-password, the other requests and the sweep, each in whatever environment, a
  record of the collection either is still there under its identifier, verified if it
  was verified, or it was unverified and has been deleted. So the flag of a verified
  user is never set back to false, and a single event either leaves a flag, sets it, or
  deletes an unverified record.
\<close>

theorem isVerified_never_reverted:
  assumes "wf_store s" and "u \<in> set s"
  shows "(\<exists>u'\<in>set (run evs s). uid u' = uid u \<and> (isVerified u \<longrightarrow> isVerified u'))
       \<or> (\<not> isVerified u \<and> uid u \<notin> set (map uid (run evs s)))"
  using run_invariant [OF assms(1), of evs] assms(2) unfolding flag_monotone_def by blast

theorem isVerified_never_reverted_witness:
  "(\<exists>u'\<in>set (run [(example_env, Request (ForgotPassword (Some ''b@x.com''))),
                   (example_env\<lparr>now := 90000000\<rparr>, SweepTick),
                   (example_env\<lparr>now := 90000001\<rparr>,
                    Request (ResetPassword ''9f86d081884c7d659a2f'' (Some ''N3wPassw0rd'')))]
                  [alice, bob]).
       uid u' = uid bob \<and> (isVerified bob \<longrightarrow> isVerified u'))
   \<or> (\<not> isVerified bob
       \<and> uid bob \<notin> set (map uid
            (run [(example_env, Request (ForgotPassword (Some ''b@x.com''))),
                  (example_env\<lparr>now := 90000000\<rparr>, SweepTick),
                  (example_env\<lparr>now := 90000001\<rparr>,
                   Request (ResetPassword ''9f86d081884c7d659a2f'' (Some ''N3wPassw0rd'')))]
                 [alice, bob])))"
proof -
  have a: "wf_store [alice, bob]"
    by (simp add: wf_store_def alice_def bob_def)
  have b: "bob \<in> set [alice, bob]"
    by simp
  show ?thesis
    by (rule isVerified_never_reverted [OF a b])
qed

section \<open>Signup with a registered email\<close>

lemma signup_created_email:
  "status (res (signup e s em pw nm)) = 201 \<Longrightarrow>
   \<exists>a. em = Some a \<and> a \<in> set (map email (store (signup e s em pw nm)))"
  by (cases "(e, s, em, pw, nm)" rule: signup.cases)
     (auto simp: out_def reply_def signup_catch_def User_create_def Let_def
           split: sum.splits option.splits prod.splits if_splits)

lemma signup_registered_not_created:
  "a \<in> set (map email s) \<Longrightarrow>
   status (res (signup e s (Some a) pw nm)) \<noteq> 201 \<and> store (signup e s (Some a) pw nm) = s"
  by (cases "(e, s, Some a, pw, nm)" rule: signup.cases)
     (auto simp: out_def reply_def signup_catch_def User_findOne_def find_None_set
           split: sum.splits option.splits prod.splits if_splits)

text \<open>Only the sweep takes an email out of the collection.\<close>

lemma saved_emails:
  assumes "wf_store s" and "saved s s'"
  shows "map email s' = map email s"
proof -
  obtain w w' where w: "w \<in> set s" "uid w' = uid w" "email w' = email w"
    and s': "s' = save_as w w' s"
    using assms(2) by (auto simp: saved_def)
  have d: "distinct (map uid s)"
    using assms(1) by (simp add: wf_store_def)
  show ?thesis
    unfolding s' save_as_def using same_uid_same_record [OF d _ w(1)] w(3) by (auto simp: comp_def)
qed

lemma request_keeps_emails:
  assumes "wf_store s"
  shows "set (map email s) \<subseteq> set (map email (step e (Request r) s))"
proof (cases "handle e s r")
  case None
  then show ?thesis
    by simp
next
  case (Some oc)
  have st: "step e (Request r) s = store oc"
    using Some by simp
  from request_store [OF Some] consider "store oc = s" | "saved s (store oc)"
    | u where "store oc = s @ [u]"
    by blast
  then show ?thesis
    unfolding st
  proof cases
    case 1
    then show "set (map email s) \<subseteq> set (map email (store oc))"
      by simp
  next
    case 2
    then have "map email (store oc) = map email s"
      by (rule saved_emails [OF assms])
    then show "set (map email s) \<subseteq> set (map email (store oc))"
      by (simp only: subset_refl)
  next
    case 3
    then show "set (map email s) \<subseteq> set (map email (store oc))"
      by auto
  qed
qed

lemma run_keeps_emails:
  "wf_store s \<Longrightarrow> SweepTick \<notin> set (map snd evs) \<Longrightarrow>
   set (map email s) \<subseteq> set (map email (run evs s))"
proof (induction evs arbitrary: s)
  case Nil
  then show ?case
    by simp
next
  case (Cons a evs)
  obtain e ev where a: "a = (e, ev)"
    by (cases a)
  obtain r where r: "ev = Request r"
    using Cons.prems(2) a by (cases ev) auto
  have 1: "wf_store (step e ev s)"
    using step_invariant [OF Cons.prems(1)] by simp
  have 2: "set (map email s) \<subseteq> set (map email (step e ev s))"
    unfolding r by (rule request_keeps_emails [OF Cons.prems(1)])
  have 3: "SweepTick \<notin> set (map snd evs)"
    using Cons.prems(2) by simp
  have "set (map email (step e ev s)) \<subseteq> set (map email (run evs (step e ev s)))"
    by (rule Cons.IH [OF 1 3])
  then show ?case
    using 2 by (auto simp: a)
qed

lemma signup_wf: "wf_store s \<Longrightarrow> wf_store (store (signup e s em pw nm))"
  using step_invariant [of s e "Request (Signup em pw nm)"] by simp

text \<open>
  C7, as stated: a signup whose email belongs to an existing record is answered 409
  and changes nothing, hence two signups with the same email never both succeed. The
  sweep deletes a record that is still unverified past the expiry of its code; the
  email then belongs to no record, and a second signup with it is answered 201 as the
  first was.
\<close>

theorem signup_after_sweep_counterexample:
  "status (res (signup example_env [] (Some ''a@x.com'') (Some ''Passw0rd!'') (Some ''A''))) = 201
   \<and> step (example_env\<lparr>now := 90000000\<rparr>) SweepTick
        (store (signup example_env [] (Some ''a@x.com'') (Some ''Passw0rd!'') (Some ''A''))) = []
   \<and> status (res (signup (example_env\<lparr>now := 90000000\<rparr>)
        (step (example_env\<lparr>now := 90000000\<rparr>) SweepTick
           (store (signup example_env [] (Some ''a@x.com'') (Some ''Passw0rd!'') (Some ''A''))))
        (Some ''a@x.com'') (Some ''Passw0rd!'') (Some ''A''))) = 201"
  by (simp add: example_env_def User_findOne_def User_create_def generateTokenAndSetCookie_def
      sendVerificationEmail_def out_def reply_def Let_def sweep_def User_find_def
      User_deleteMany_def expired_unverified_def)

text \<open>
  C7, amended: a signup request (with all three fields and a password of at least 8
  characters, the lookup being answered by the store) whose email belongs to an
  existing record is answered 409 "A user with this email already exists." whatever
  hashing or writing would give: nothing is created, nothing changes, no mail goes out
  and no cookie is set. Whatever its other fields and whatever faults, a signup with a
  registered email is not answered 201 and leaves the collection as it found it. Hence
  two signups with the same email are never both answered 201 as long as a record with
  that email is in the collection when the second arrives: so on the collection the
  first left, and so after any requests in between when no sweep has run.
\<close>

theorem signup_existing_email_conflict:
  assumes "req_email \<noteq> []" and "req_name \<noteq> []" and "8 \<le> length req_password"
    and "db_read_error e = None" and "req_email \<in> set (map email s)"
  shows "signup e s (Some req_email) (Some req_password) (Some req_name) =
           out s (reply NoCookie 409 False ''A user with this email already exists.'') [] []
       \<and> status (res (signup e0 s (Some req_email) pw0 nm0)) \<noteq> 201
       \<and> store (signup e0 s (Some req_email) pw0 nm0) = s
       \<and> (status (res (signup e1 s1 em pw1 nm1)) = 201 \<longrightarrow>
            status (res (signup e2 (store (signup e1 s1 em pw1 nm1)) em pw2 nm2)) \<noteq> 201
            \<and> store (signup e2 (store (signup e1 s1 em pw1 nm1)) em pw2 nm2)
                = store (signup e1 s1 em pw1 nm1))
       \<and> (wf_store s1 \<and> SweepTick \<notin> set (map snd evs)
            \<and> status (res (signup e1 s1 em pw1 nm1)) = 201 \<longrightarrow>
            status (res (signup e2 (run evs (store (signup e1 s1 em pw1 nm1))) em pw2 nm2)) \<noteq> 201
            \<and> store (signup e2 (run evs (store (signup e1 s1 em pw1 nm1))) em pw2 nm2)
                = run evs (store (signup e1 s1 em pw1 nm1)))
       \<and> (req_email \<in> set (map email (run evs' s)) \<longrightarrow>
            status (res (signup e2 (run evs' s) (Some req_email) pw2 nm2)) \<noteq> 201
            \<and> store (signup e2 (run evs' s) (Some req_email) pw2 nm2) = run evs' s)"
proof (intro conjI impI)
  obtain u where "find (\<lambda>v. email v = req_email) s = Some u"
    using find_registered_email [OF assms(5)] by blast
  moreover have "req_password \<noteq> []"
    using assms(3) by auto
  ultimately show "signup e s (Some req_email) (Some req_password) (Some req_name) =
          out s (reply NoCookie 409 False ''A user with this email already exists.'') [] []"
    using assms by (simp add: User_findOne_def)
next
  show "status (res (signup e0 s (Some req_email) pw0 nm0)) \<noteq> 201"
    using signup_registered_not_created [OF assms(5)] by simp
next
  show "store (signup e0 s (Some req_email) pw0 nm0) = s"
    using signup_registered_not_created [OF assms(5)] by simp
next
  assume "status (res (signup e1 s1 em pw1 nm1)) = 201"
  then obtain a where a: "em = Some a" "a \<in> set (map email (store (signup e1 s1 em pw1 nm1)))"
    using signup_created_email by blast
  show "status (res (signup e2 (store (signup e1 s1 em pw1 nm1)) em pw2 nm2)) \<noteq> 201"
    using signup_registered_not_created [OF a(2)] a(1) by simp
  show "store (signup e2 (store (signup e1 s1 em pw1 nm1)) em pw2 nm2)
          = store (signup e1 s1 em pw1 nm1)"
    using signup_registered_not_created [OF a(2)] a(1) by simp
next
  assume h: "wf_store s1 \<and> SweepTick \<notin> set (map snd evs)
            \<and> status (res (signup e1 s1 em pw1 nm1)) = 201"
  then obtain a where a: "em = Some a" "a \<in> set (map email (store (signup e1 s1 em pw1 nm1)))"
    using signup_created_email by blast
  have "wf_store (store (signup e1 s1 em pw1 nm1))"
    using h by (simp add: signup_wf)
  then have b: "a \<in> set (map email (run evs (store (signup e1 s1 em pw1 nm1))))"
    using run_keeps_emails h a(2) by blast
  show "status (res (signup e2 (run evs (store (signup e1 s1 em pw1 nm1))) em pw2 nm2)) \<noteq> 201"
    using signup_registered_not_created [OF b] a(1) by simp
  show "store (signup e2 (run evs (store (signup e1 s1 em pw1 nm1))) em pw2 nm2)
                = run evs (store (signup e1 s1 em pw1 nm1))"
    using signup_registered_not_created [OF b] a(1) by simp
next
  assume b: "req_email \<in> set (map email (run evs' s))"
  show "status (res (signup e2 (run evs' s) (Some req_email) pw2 nm2)) \<noteq> 201"
    using signup_registered_not_created [OF b] by simp
  show "store (signup e2 (run evs' s) (Some req_email) pw2 nm2) = run evs' s"
    using signup_registered_not_created [OF b] by simp
qed

theorem signup_existing_email_conflict_witness:
  "signup (example_env\<lparr>bcrypt_hash := \<lambda>p. Inl ''not reached'', db_write_error := Some ''not reached''\<rparr>)
       [alice] (Some ''a@x.com'') (Some ''0therPassw0rd'') (Some ''Mallory'') =
     out [alice] (reply NoCookie 409 False ''A user with this email already exists.'') [] []
   \<and> store (signup (example_env\<lparr>db_read_error := Some ''down''\<rparr>) [alice]
               (Some ''a@x.com'') (Some ''short'') None) = [alice]
   \<and> status (res (signup example_env [] (Some ''a@x.com'') (Some ''Passw0rd!'') (Some ''A''))) = 201
   \<and> status (res (signup (example_env\<lparr>fresh_id := 2\<rparr>)
                     (store (signup example_env [] (Some ''a@x.com'') (Some ''Passw0rd!'') (Some ''A'')))
                     (Some ''a@x.com'') (Some ''0therPassw0rd'') (Some ''Mallory''))) \<noteq> 201
   \<and> store (signup (example_env\<lparr>fresh_id := 2\<rparr>)
               (store (signup example_env [] (Some ''a@x.com'') (Some ''Passw0rd!'') (Some ''A'')))
               (Some ''a@x.com'') (Some ''0therPassw0rd'') (Some ''Mallory''))
       = store (signup example_env [] (Some ''a@x.com'') (Some ''Passw0rd!'') (Some ''A''))
   \<and> status (res (signup (example_env\<lparr>fresh_id := 2\<rparr>)
                     (run [(example_env\<lparr>now := 90000000\<rparr>,
                           Request (ForgotPassword (Some ''a@x.com'')))]
                        (store (signup example_env [] (Some ''a@x.com'') (Some ''Passw0rd!'') (Some ''A''))))
                     (Some ''a@x.com'') (Some ''0therPassw0rd'') (Some ''Mallory''))) \<noteq> 201"
proof -
  let ?e = "example_env\<lparr>bcrypt_hash := \<lambda>p. Inl ''not reached'', db_write_error := Some ''not reached''\<rparr>"
  let ?evs = "[(example_env\<lparr>now := 90000000\<rparr>, Request (ForgotPassword (Some ''a@x.com'')))]"
  have a: "''a@x.com'' \<noteq> []" and b: "''Mallory'' \<noteq> []" and c: "8 \<le> length ''0therPassw0rd''"
    by simp_all
  have d: "db_read_error ?e = None"
    by (simp add: example_env_def)
  have f: "''a@x.com'' \<in> set (map email [alice])"
    by (simp add: alice_def)
  have first: "status (res (signup example_env [] (Some ''a@x.com'') (Some ''Passw0rd!'') (Some ''A''))) = 201"
    by (simp add: example_env_def User_findOne_def User_create_def generateTokenAndSetCookie_def
        sendVerificationEmail_def out_def reply_def Let_def)
  have g: "wf_store [] \<and> SweepTick \<notin> set (map snd ?evs)"
    by (simp add: wf_store_def)
  show ?thesis
    using first g
      signup_existing_email_conflict [OF a b c d f,
        where ?e0.0 = "example_env\<lparr>db_read_error := Some ''down''\<rparr>"
        and ?pw0.0 = "Some ''short''" and ?nm0.0 = None
        and ?e1.0 = example_env and ?s1.0 = "[]"
        and em = "Some ''a@x.com''" and ?pw1.0 = "Some ''Passw0rd!''" and ?nm1.0 = "Some ''A''"
        and ?e2.0 = "example_env\<lparr>fresh_id := 2\<rparr>" and ?pw2.0 = "Some ''0therPassw0rd''"
        and ?nm2.0 = "Some ''Mallory''" and evs = ?evs]
    by blast
qed

end
